theory Spec2Isabelle
  imports Complex_Main
begin

section \<open>The ray march of the occupancy grid (COccupancyGridMap2D_simulate.cpp)\<close>

text \<open>
  The grid as \<^verbatim>\<open>simulateScanRay\<close> reads it. \<^verbatim>\<open>size_x\<close> and \<^verbatim>\<open>size_y\<close> are
  \<^verbatim>\<open>uint32_t\<close> (naturals below \<open>2 ^ 32\<close>), the cell vector \<^verbatim>\<open>map\<close> (here
  \<open>map_cells\<close>) holds the signed log-odds values. \<^verbatim>\<open>x2idx\<close>, \<^verbatim>\<open>y2idx\<close> and \<^verbatim>\<open>p2l\<close>
  are declared in a header that is not part of the sources, so they are parameters of the
  grid. \<^verbatim>\<open>float\<close> and \<^verbatim>\<open>double\<close> values are read as reals: rounding, NaN and the drift
  of the accumulated ray position are not modelled.
\<close>

record grid =
  size_x :: nat
  size_y :: nat
  resolution :: real
  map_cells :: "int list"
  x2idx :: "real \<Rightarrow> int"
  y2idx :: "real \<Rightarrow> int"
  p2l :: "real \<Rightarrow> int"

text \<open>\<^verbatim>\<open>static_cast<int>(u)\<close> of a 32-bit unsigned value and \<^verbatim>\<open>static_cast<unsigned>(i)\<close>
  of an \<^verbatim>\<open>int\<close>, with the wrap-around written out.\<close>

definition cast_int :: "nat \<Rightarrow> int" where
  "cast_int u = (if u mod 2 ^ 32 < 2 ^ 31 then int (u mod 2 ^ 32) else int (u mod 2 ^ 32) - 2 ^ 32)"

definition cast_unsigned :: "int \<Rightarrow> nat" where
  "cast_unsigned i = nat (i mod 2 ^ 32)"

text \<open>The bounds test of the loop condition:
  \<^verbatim>\<open>x>=0 && y>=0 && x<static_cast<int>(size_x) && y<static_cast<int>(size_y)\<close>.\<close>

definition in_grid :: "grid \<Rightarrow> int \<Rightarrow> int \<Rightarrow> bool" where
  "in_grid g cx cy = (cx \<ge> 0 \<and> cy \<ge> 0 \<and> cx < cast_int (size_x g) \<and> cy < cast_int (size_y g))"

text \<open>\<^verbatim>\<open>map[x+y*size_x]\<close>: the index is computed in 32-bit unsigned arithmetic.\<close>

definition cell_at :: "grid \<Rightarrow> int \<Rightarrow> int \<Rightarrow> int" where
  "cell_at g cx cy = map_cells g ! ((cast_unsigned cx + cast_unsigned cy * size_x g) mod 2 ^ 32)"

text \<open>The local variables of \<^verbatim>\<open>simulateScanRay\<close> that the \<^verbatim>\<open>while\<close> loop changes
  (\<open>x_idx\<close>, \<open>y_idx\<close> are the source's \<^verbatim>\<open>x\<close>, \<^verbatim>\<open>y\<close>).\<close>

record ray_state =
  rx :: real
  ry :: real
  ray_len :: nat
  firstUnknownCellDist :: nat
  hitCellOcc_int :: int
  x_idx :: int
  y_idx :: int

text \<open>
  The \<^verbatim>\<open>while\<close> loop of lines 153-163. Its condition assigns \<^verbatim>\<open>x\<close>, \<^verbatim>\<open>y\<close> and
  \<^verbatim>\<open>hitCellOcc_int\<close> as far as the short-circuit evaluation of \<^verbatim>\<open>&&\<close> gets:
  \<^verbatim>\<open>(x=x2idx(rx))>=0 && (y=y2idx(ry))>=0 && x<size_x && y<size_y &&
  (hitCellOcc_int=map[x+y*size_x])>threshold_free_int && ray_len<max_ray_len\<close>.
\<close>

function ray_march :: "grid \<Rightarrow> real \<Rightarrow> real \<Rightarrow> int \<Rightarrow> nat \<Rightarrow> ray_state \<Rightarrow> ray_state" where
  "ray_march g Arx Ary threshold_free_int max_ray_len s =
     (let s1 = s\<lparr>x_idx := x2idx g (rx s)\<rparr> in
      if \<not> x_idx s1 \<ge> 0 then s1
      else
        let s2 = s1\<lparr>y_idx := y2idx g (ry s1)\<rparr> in
        if \<not> in_grid g (x_idx s2) (y_idx s2) then s2
        else
          let s3 = s2\<lparr>hitCellOcc_int := cell_at g (x_idx s2) (y_idx s2)\<rparr> in
          if \<not> (hitCellOcc_int s3 > threshold_free_int \<and> ray_len s3 < max_ray_len) then s3
          else
            ray_march g Arx Ary threshold_free_int max_ray_len
              (s3\<lparr>firstUnknownCellDist :=
                     (if \<bar>hitCellOcc_int s3\<bar> \<le> 1
                      then min (firstUnknownCellDist s3) (ray_len s3)
                      else firstUnknownCellDist s3),
                   rx := rx s3 + Arx,
                   ry := ry s3 + Ary,
                   ray_len := ray_len s3 + 1\<rparr>))"
  by pat_completeness auto
termination
  by (relation "measure (\<lambda>(g, Arx, Ary, t, m, s). m - ray_len s)") (auto simp: Let_def)

declare ray_march.simps [simp del]

text \<open>The state before the loop (lines 145-151). \<^verbatim>\<open>max_ray_len+1\<close> is \<^verbatim>\<open>unsigned int\<close>
  arithmetic; \<^verbatim>\<open>x\<close> is declared without a value and assigned by the first evaluation of
  the loop condition.\<close>

definition ray_init :: "grid \<Rightarrow> real \<Rightarrow> real \<Rightarrow> nat \<Rightarrow> ray_state" where
  "ray_init g start_x start_y max_ray_len =
     \<lparr>rx = start_x, ry = start_y, ray_len = 0,
      firstUnknownCellDist = (max_ray_len + 1) mod 2 ^ 32,
      hitCellOcc_int = 0, x_idx = 0, y_idx = y2idx g start_y\<rparr>"

text \<open>The shared Gaussian source \<^verbatim>\<open>randomGenerator\<close> is a stream \<open>gauss\<close> of samples and
  the number \<open>k\<close> of samples drawn so far; every function that may draw returns the new
  count.\<close>

definition perturbed_angle :: "(nat \<Rightarrow> real) \<Rightarrow> nat \<Rightarrow> real \<Rightarrow> real \<Rightarrow> real \<times> nat" where
  "perturbed_angle gauss k angle_direction angleNoiseStd =
     (if angleNoiseStd > 0 then (angle_direction + gauss k * angleNoiseStd, k + 1)
      else (angle_direction + 0, k))"

text \<open>The state in which the loop of \<^verbatim>\<open>simulateScanRay\<close> ends.\<close>

definition ray_trace ::
  "grid \<Rightarrow> real \<Rightarrow> real \<Rightarrow> real \<Rightarrow> nat \<Rightarrow> real \<Rightarrow> ray_state" where
  "ray_trace g start_x start_y A' max_ray_len threshold_free =
     ray_march g (cos A' * resolution g) (sin A' * resolution g) (p2l g threshold_free)
       max_ray_len (ray_init g start_x start_y max_ray_len)"

text \<open>\<^verbatim>\<open>simulateScanRay\<close>: returns \<open>(out_range, out_valid, k')\<close>.\<close>

definition simulateScanRay ::
  "grid \<Rightarrow> (nat \<Rightarrow> real) \<Rightarrow> nat \<Rightarrow> real \<Rightarrow> real \<Rightarrow> real \<Rightarrow> nat \<Rightarrow> real \<Rightarrow> real \<Rightarrow> real
     \<Rightarrow> real \<times> bool \<times> nat" where
  "simulateScanRay g gauss k start_x start_y angle_direction max_ray_len threshold_free
       noiseStd angleNoiseStd =
     (let (A', k1) = perturbed_angle gauss k angle_direction angleNoiseStd;
          s = ray_trace g start_x start_y A' max_ray_len threshold_free
      in
        if \<bar>hitCellOcc_int s\<bar> \<le> 1 \<or> cast_unsigned (x_idx s) \<ge> size_x g
           \<or> cast_unsigned (y_idx s) \<ge> size_y g
        then
          (if firstUnknownCellDist s < ray_len s
           then (real (firstUnknownCellDist s) * resolution g, False, k1)
           else (real (ray_len s) * resolution g, False, k1))
        else
          (let out_range = real (ray_len s) * resolution g;
               out_valid = (ray_len s < max_ray_len)
           in if noiseStd > 0 \<and> out_valid
              then (out_range + noiseStd * gauss k1, out_valid, k1 + 1)
              else (out_range, out_valid, k1)))"

section \<open>The laser and sonar simulators (COccupancyGridMap2D_simulate.cpp)\<close>

text \<open>\<^verbatim>\<open>CPose2D\<close>, and the fields of \<^verbatim>\<open>CObservation2DRangeScan\<close> and \<^verbatim>\<open>CObservationRange\<close>
  that the simulators read and write. The type \<open>'sp\<close> is the sensor pose on the robot
  (a 3D pose).\<close>

record pose2D =
  pose_x :: real
  pose_y :: real
  pose_phi :: real

record 'sp range_scan =
  scan :: "real list"
  validRange :: "nat list"
  aperture :: real
  rightToLeft :: bool
  maxRange :: real
  sensorPose :: 'sp

record 'sp measurement =
  measurement_sensorPose :: 'sp
  sensedDistance :: real

record 'sp range_observation =
  sensedData :: "'sp measurement list"
  maxSensorDistance :: real
  sensorConeApperture :: real

text \<open>
  What the simulators call and the sources do not define: the sensor's pose in the map,
  \<^verbatim>\<open>CPose2D(CPose3D(robotPose) + sensorPose)\<close>, and \<^verbatim>\<open>mrpt::utils::round\<close>.
\<close>

record 'sp sim_helpers =
  sensor_in_map :: "pose2D \<Rightarrow> 'sp \<Rightarrow> pose2D"
  mrpt_round :: "real \<Rightarrow> int"

text \<open>A failed \<^verbatim>\<open>ASSERT_\<close>, with the text of the asserted condition.\<close>

datatype contract_violation = ASSERT_failed string

text \<open>\<^verbatim>\<open>std::vector::resize(n)\<close>, new entries are value-initialised.\<close>

definition resize :: "nat \<Rightarrow> 'a \<Rightarrow> 'a list \<Rightarrow> 'a list" where
  "resize n v xs = take n xs @ replicate (n - length xs) v"

text \<open>The conversion of the rounded quotient to \<^verbatim>\<open>unsigned int max_ray_len\<close>.\<close>

definition max_ray_len_of :: "'sp sim_helpers \<Rightarrow> grid \<Rightarrow> real \<Rightarrow> nat" where
  "max_ray_len_of h g max_range = cast_unsigned (mrpt_round h (max_range / resolution g))"

text \<open>
  The \<^verbatim>\<open>for\<close> loop of \<^verbatim>\<open>laserScanSimulator\<close> (lines 70-79), from index \<open>i\<close> on. With
  \<open>decimation = 0\<close> it would not end, so the loop is a partial function: \<open>None\<close> is a run
  that does not return. (\<^verbatim>\<open>i\<close> is a \<^verbatim>\<open>size_t\<close>; it cannot wrap for a vector length \<open>N\<close>
  that \<^verbatim>\<open>resize\<close> accepted.)
\<close>

partial_function (option) laser_loop ::
  "grid \<Rightarrow> (nat \<Rightarrow> real) \<Rightarrow> pose2D \<Rightarrow> nat \<times> real \<times> real \<times> real \<Rightarrow> nat \<Rightarrow> nat \<Rightarrow> real
     \<Rightarrow> nat \<Rightarrow> real \<Rightarrow> nat \<Rightarrow> real list \<times> nat list
     \<Rightarrow> (real list \<times> nat list \<times> nat) option" where
  "laser_loop g gauss sensor_pose ray_args N decimation AA i A k out =
     (if i < N then
        (case ray_args of (max_ray_len, free_thres, noiseStd, angleNoiseStd) \<Rightarrow>
         case simulateScanRay g gauss k (pose_x sensor_pose) (pose_y sensor_pose) A
                max_ray_len free_thres noiseStd angleNoiseStd of
           (out_range, valid, k') \<Rightarrow>
             laser_loop g gauss sensor_pose ray_args N decimation AA
               (i + decimation) (A + AA * real decimation) k'
               ((fst out)[i := out_range], (snd out)[i := (if valid then 1 else 0)]))
      else Some (fst out, snd out, k))"

text \<open>\<^verbatim>\<open>laserScanSimulator\<close>: a contract violation, or the scan written and the number of
  Gaussian samples drawn.\<close>

definition laserScanSimulator ::
  "'sp sim_helpers \<Rightarrow> grid \<Rightarrow> (nat \<Rightarrow> real) \<Rightarrow> nat \<Rightarrow> 'sp range_scan \<Rightarrow> pose2D \<Rightarrow> real \<Rightarrow> nat
     \<Rightarrow> real \<Rightarrow> nat \<Rightarrow> real \<Rightarrow> (contract_violation + 'sp range_scan \<times> nat) option" where
  "laserScanSimulator h g gauss k inout_Scan robotPose threshold N noiseStd decimation
       angleNoiseStd =
     (if \<not> decimation \<ge> 1 then Some (Inl (ASSERT_failed ''decimation>=1''))
      else if \<not> N \<ge> 2 then Some (Inl (ASSERT_failed ''N>=2''))
      else
        (let sensor_pose = sensor_in_map h robotPose (sensorPose inout_Scan);
             scan0 = resize N 0 (scan inout_Scan);
             valid0 = resize N 0 (validRange inout_Scan);
             A = pose_phi sensor_pose
                   + (if rightToLeft inout_Scan then - 0.5 else 0.5) * aperture inout_Scan;
             AA = (if rightToLeft inout_Scan then 1.0 else - 1.0)
                    * (aperture inout_Scan / real (N - 1));
             free_thres = 1 - threshold;
             max_ray_len = max_ray_len_of h g (maxRange inout_Scan)
         in
           case laser_loop g gauss sensor_pose (max_ray_len, free_thres, noiseStd, angleNoiseStd)
                  N decimation AA 0 A k (scan0, valid0) of
             None \<Rightarrow> None
           | Some (scan_out, valid_out, k') \<Rightarrow>
               Some (Inr (inout_Scan\<lparr>scan := scan_out, validRange := valid_out\<rparr>, k'))))"

text \<open>The inner loop of \<^verbatim>\<open>sonarSimulator\<close> (lines 105-118) over the rays of one cone,
  from ray \<open>i\<close> on; it returns \<^verbatim>\<open>min_detected_obs\<close> and the samples drawn.\<close>

function sonar_rays ::
  "grid \<Rightarrow> (nat \<Rightarrow> real) \<Rightarrow> pose2D \<Rightarrow> nat \<times> real \<times> real \<times> real \<Rightarrow> nat \<Rightarrow> real
     \<Rightarrow> nat \<Rightarrow> real \<Rightarrow> real \<Rightarrow> nat \<Rightarrow> real \<times> nat" where
  "sonar_rays g gauss sensorAbsolutePose ray_args nRays Adir i direction min_detected_obs k =
     (if i < nRays then
        (case ray_args of (max_ray_len, free_thres, rangeNoiseStd, angleNoiseStd) \<Rightarrow>
         case simulateScanRay g gauss k (pose_x sensorAbsolutePose) (pose_y sensorAbsolutePose)
                direction max_ray_len free_thres rangeNoiseStd angleNoiseStd of
           (sim_rang, valid, k') \<Rightarrow>
             sonar_rays g gauss sensorAbsolutePose ray_args nRays Adir (i + 1) (direction + Adir)
               (if valid \<and> (sim_rang < min_detected_obs \<or> i = 0) then sim_rang
                else min_detected_obs)
               k')
      else (min_detected_obs, k))"
  by pat_completeness auto
termination
  by (relation "measure (\<lambda>(g, gauss, p, ra, nRays, Adir, i, dir, m, k). nRays - i)") auto

declare sonar_rays.simps [simp del]

text \<open>The body of the outer loop (lines 96-120) for one transducer. \<^verbatim>\<open>DEG2RAD(1.0)\<close> is
  \<open>pi / 180\<close>; \<^verbatim>\<open>size_t nRays\<close> takes the rounded value, which is positive for the positive
  cone aperture that the assertion lets through.\<close>

definition sonar_cone ::
  "'sp sim_helpers \<Rightarrow> grid \<Rightarrow> (nat \<Rightarrow> real) \<Rightarrow> pose2D \<Rightarrow> nat \<times> real \<times> real \<times> real \<Rightarrow> real
     \<Rightarrow> 'sp measurement \<Rightarrow> nat \<Rightarrow> contract_violation + 'sp measurement \<times> nat" where
  "sonar_cone h g gauss robotPose ray_args cone itR k =
     (let sensorAbsolutePose = sensor_in_map h robotPose (measurement_sensorPose itR) in
      if \<not> cone > 0 then Inl (ASSERT_failed ''inout_observation.sensorConeApperture>0'')
      else
        (let nRays = nat (mrpt_round h (1 + cone / (pi / 180)));
             direction = pose_phi sensorAbsolutePose - 0.5 * cone;
             Adir = cone / real nRays;
             (min_detected_obs, k') =
               sonar_rays g gauss sensorAbsolutePose ray_args nRays Adir 0 direction 0 k
         in Inr (itR\<lparr>sensedDistance := min_detected_obs\<rparr>, k')))"

text \<open>The outer loop over the transducers of the observation; the first failed assertion
  ends it.\<close>

fun sonar_loop ::
  "'sp sim_helpers \<Rightarrow> grid \<Rightarrow> (nat \<Rightarrow> real) \<Rightarrow> pose2D \<Rightarrow> nat \<times> real \<times> real \<times> real \<Rightarrow> real
     \<Rightarrow> 'sp measurement list \<Rightarrow> nat \<Rightarrow> contract_violation + 'sp measurement list \<times> nat" where
  "sonar_loop h g gauss robotPose ray_args cone [] k = Inr ([], k)"
| "sonar_loop h g gauss robotPose ray_args cone (itR # rest) k =
     (case sonar_cone h g gauss robotPose ray_args cone itR k of
        Inl e \<Rightarrow> Inl e
      | Inr (itR', k') \<Rightarrow>
          (case sonar_loop h g gauss robotPose ray_args cone rest k' of
             Inl e \<Rightarrow> Inl e
           | Inr (rest', k'') \<Rightarrow> Inr (itR' # rest', k'')))"

definition sonarSimulator ::
  "'sp sim_helpers \<Rightarrow> grid \<Rightarrow> (nat \<Rightarrow> real) \<Rightarrow> nat \<Rightarrow> 'sp range_observation \<Rightarrow> pose2D \<Rightarrow> real
     \<Rightarrow> real \<Rightarrow> real \<Rightarrow> contract_violation + 'sp range_observation \<times> nat" where
  "sonarSimulator h g gauss k inout_observation robotPose threshold rangeNoiseStd angleNoiseStd =
     (let free_thres = 1 - threshold;
          max_ray_len = max_ray_len_of h g (maxSensorDistance inout_observation)
      in
        case sonar_loop h g gauss robotPose (max_ray_len, free_thres, rangeNoiseStd, angleNoiseStd)
               (sensorConeApperture inout_observation) (sensedData inout_observation) k of
          Inl e \<Rightarrow> Inl e
        | Inr (data, k') \<Rightarrow> Inr (inout_observation\<lparr>sensedData := data\<rparr>, k'))"

section \<open>Edge registration decider (CICPGoodnessERD_impl.h)\<close>

subsection \<open>Collaborators\<close>

text \<open>
  Modelled from the spec: the pose graph class (\<^verbatim>\<open>GRAPH_t\<close>) is not part of the sources.
  The spec gives it \<^verbatim>\<open>nodeCount()\<close>, the indexed poses \<^verbatim>\<open>nodes[i]\<close>, \<^verbatim>\<open>insertEdge\<close>
  ("append an edge; no deduplication required") and \<^verbatim>\<open>getAllNodes\<close> ("snapshot
  enumeration"); node identifiers are the non-negative integers assigned in order, and the
  node count is the number of nodes. So a graph is the list of its poses (node \<open>i\<close> is
  position \<open>i\<close>) and the list of its edges in insertion order.
\<close>

record ('p, 'c) graph =
  nodes :: "'p list"
  edges :: "(nat \<times> nat \<times> 'c) list"

text \<open>Modelled from the spec: \<^verbatim>\<open>nodeCount()\<close>, "the number of live nodes in the pose
  graph" (the class of the graph is not part of the sources).\<close>

definition nodeCount :: "('p, 'c) graph \<Rightarrow> nat" where
  "nodeCount g = length (nodes g)"

text \<open>Modelled from the spec: \<^verbatim>\<open>insertEdge(from, to, constraint)\<close>, "append an edge; no
  deduplication required" (the class of the graph is not part of the sources).\<close>

definition insertEdge :: "nat \<Rightarrow> nat \<Rightarrow> 'c \<Rightarrow> ('p, 'c) graph \<Rightarrow> ('p, 'c) graph" where
  "insertEdge from_id to_id rel_edge g = g\<lparr>edges := edges g @ [(from_id, to_id, rel_edge)]\<rparr>"

text \<open>Modelled from the spec: \<^verbatim>\<open>getAllNodes(out set)\<close>, the "snapshot enumeration" of the
  graph's nodes, written into the set it is given. A \<^verbatim>\<open>std::set<TNodeID>\<close> is the
  ascending list of its elements.\<close>

definition getAllNodes :: "('p, 'c) graph \<Rightarrow> nat list" where
  "getAllNodes g = [0..<nodeCount g]"

text \<open>\<^verbatim>\<open>std::set::insert\<close> on the ascending list.\<close>

fun set_insert :: "nat \<Rightarrow> nat list \<Rightarrow> nat list" where
  "set_insert v [] = [v]"
| "set_insert v (w # ws) =
     (if v < w then v # w # ws else if v = w then w # ws else w # set_insert v ws)"

text \<open>
  What the decider calls and the sources do not define: the translational distance of two
  poses, the ICP solver for each scan kind (it returns the relative pose and
  \<^verbatim>\<open>icp_info.goodness\<close>), the lazy load of a 3D scan and its projection to a 2D scan.
\<close>

record ('p, 's2, 's3, 'c) collaborators =
  distanceTo :: "'p \<Rightarrow> 'p \<Rightarrow> real"
  getICPEdge2D :: "'s2 \<Rightarrow> 's2 \<Rightarrow> 'c \<times> real"
  getICPEdge3D :: "'s3 \<Rightarrow> 's3 \<Rightarrow> 'c \<times> real"
  load3D :: "'s3 \<Rightarrow> 's3"
  convert3DTo2DRangeScan :: "'s3 \<Rightarrow> 's2 option"

text \<open>The options of \<^verbatim>\<open>TParams\<close> that \<^verbatim>\<open>updateDeciderState\<close> reads.\<close>

record TParams =
  ICP_max_distance :: real
  ICP_goodness_thresh :: real
  LC_min_nodeid_diff :: int

text \<open>An observation by its runtime class, as \<^verbatim>\<open>IS_CLASS\<close> tells them apart.\<close>

datatype ('s2, 's3) observation =
  Observation2DRangeScan 's2
| Observation3DRangeScan 's3
| ObservationOther

text \<open>\<^verbatim>\<open>CSensoryFrame::getObservationByClass<CObservation2DRangeScan>()\<close>: the first 2D
  range scan of the frame, or the null pointer.\<close>

fun getObservationByClass2D :: "('s2, 's3) observation list \<Rightarrow> 's2 option" where
  "getObservationByClass2D [] = None"
| "getObservationByClass2D (Observation2DRangeScan s # obs) = Some s"
| "getObservationByClass2D (_ # obs) = getObservationByClass2D obs"

subsection \<open>The decider's state\<close>

text \<open>\<^verbatim>\<open>m_edge_types_to_nums\<close> is a \<^verbatim>\<open>std::map<const std::string, int>\<close>; \<^verbatim>\<open>operator[]\<close>
  reads a missing key as 0. The \<^verbatim>\<open>int\<close> counters are unbounded integers here (a signed
  overflow is undefined in the source).\<close>

definition edge_count :: "(string \<rightharpoonup> int) \<Rightarrow> string \<Rightarrow> int" where
  "edge_count m k = (case m k of None \<Rightarrow> 0 | Some v \<Rightarrow> v)"

definition increment :: "string \<Rightarrow> (string \<rightharpoonup> int) \<Rightarrow> (string \<rightharpoonup> int)" where
  "increment k m = m(k \<mapsto> edge_count m k + 1)"

record ('s2, 's3) decider =
  m_just_inserted_loop_closure :: bool
  m_is_using_3DScan :: bool
  m_last_total_num_of_nodes :: nat
  m_edge_types_to_nums :: "string \<rightharpoonup> int"
  m_last_laser_scan2D :: "'s2 option"
  m_last_laser_scan3D :: "'s3 option"
  m_fake_laser_scan2D :: "'s2 option"
  m_nodes_to_laser_scans2D :: "nat \<rightharpoonup> 's2"
  m_nodes_to_laser_scans3D :: "nat \<rightharpoonup> 's3"
  m_checked_for_usuable_dataset :: bool
  m_consecutive_invalid_format_instances :: nat

definition m_consecutive_invalid_format_instances_thres :: nat where
  "m_consecutive_invalid_format_instances_thres = 20"

text \<open>\<^verbatim>\<open>initCICPGoodnessERD_t\<close>, called by the constructor; the scan pointers and the
  registries start empty.\<close>

definition initCICPGoodnessERD_t :: "('s2, 's3) decider" where
  "initCICPGoodnessERD_t =
     \<lparr>m_just_inserted_loop_closure = False,
      m_is_using_3DScan = False,
      m_last_total_num_of_nodes = 2,
      m_edge_types_to_nums = [''ICP2D'' \<mapsto> 0, ''ICP3D'' \<mapsto> 0, ''LC'' \<mapsto> 0],
      m_last_laser_scan2D = None,
      m_last_laser_scan3D = None,
      m_fake_laser_scan2D = None,
      m_nodes_to_laser_scans2D = Map.empty,
      m_nodes_to_laser_scans3D = Map.empty,
      m_checked_for_usuable_dataset = False,
      m_consecutive_invalid_format_instances = 0\<rparr>"

definition justInsertedLoopClosure :: "('s2, 's3) decider \<Rightarrow> bool" where
  "justInsertedLoopClosure d = m_just_inserted_loop_closure d"

definition getEdgesStats :: "('s2, 's3) decider \<Rightarrow> (string \<rightharpoonup> int)" where
  "getEdgesStats d = m_edge_types_to_nums d"

subsection \<open>Candidate selection\<close>

text \<open>
  The loop of \<^verbatim>\<open>getNearbyNodesOf\<close> (lines 297-305), from node \<open>nodeID\<close> on. Node
  identifiers are naturals: \<^verbatim>\<open>nodeCount()-1\<close> is only evaluated by
  \<^verbatim>\<open>updateDeciderState\<close> once \<^verbatim>\<open>nodeCount()\<close> exceeds \<^verbatim>\<open>m_last_total_num_of_nodes\<close>,
  which is at least 2, so the unsigned subtraction does not wrap, and the nodes
  \<open>nodeID\<close> and \<open>cur_nodeID = nodeCount() - 1\<close> that the loop reads exist.
\<close>

function nearby_loop ::
  "('p, 's2, 's3, 'c) collaborators \<Rightarrow> ('p, 'c) graph \<Rightarrow> nat \<Rightarrow> real \<Rightarrow> nat \<Rightarrow> nat list \<Rightarrow> nat list"
  where
  "nearby_loop env g cur_nodeID distance nodeID nodes_set =
     (if nodeID < nodeCount g - 1 then
        (let curr_distance = distanceTo env (nodes g ! nodeID) (nodes g ! cur_nodeID) in
         nearby_loop env g cur_nodeID distance (nodeID + 1)
           (if curr_distance \<le> distance then set_insert nodeID nodes_set else nodes_set))
      else nodes_set)"
  by pat_completeness auto
termination
  by (relation "measure (\<lambda>(env, g, cur, dist, nodeID, ns). nodeCount g - 1 - nodeID)") auto

declare nearby_loop.simps [simp del]

text \<open>\<^verbatim>\<open>getNearbyNodesOf\<close>; the set it is given is empty at its one call site.\<close>

definition getNearbyNodesOf ::
  "('p, 's2, 's3, 'c) collaborators \<Rightarrow> ('p, 'c) graph \<Rightarrow> nat list \<Rightarrow> nat \<Rightarrow> real \<Rightarrow> nat list"
  where
  "getNearbyNodesOf env g nodes_set cur_nodeID distance =
     (if distance > 0 then nearby_loop env g cur_nodeID distance 0 nodes_set
      else getAllNodes g)"

subsection \<open>Pairwise ICP and edge registration\<close>

definition registerNewEdge :: "nat \<Rightarrow> nat \<Rightarrow> 'c \<Rightarrow> ('p, 'c) graph \<Rightarrow> ('p, 'c) graph" where
  "registerNewEdge from_id to_id rel_edge g = insertEdge from_id to_id rel_edge g"

text \<open>
  The \<^verbatim>\<open>for\<close> loop of \<^verbatim>\<open>checkRegistrationCondition2D\<close> (lines 181-214) over the nodes of
  the set in ascending order, and the function itself; then the same for 3D scans
  (lines 220-273). In
  \<^verbatim>\<open>abs(m_graph->nodeCount()-1 - *node_it) > params.LC_min_nodeid_diff\<close> the difference
  is read as an integer (no candidate lies above the new node).
\<close>

fun icp_loop2D ::
  "('p, 's2, 's3, 'c) collaborators \<Rightarrow> TParams \<Rightarrow> 's2 \<Rightarrow> nat list
     \<Rightarrow> ('s2, 's3) decider \<times> ('p, 'c) graph \<Rightarrow> ('s2, 's3) decider \<times> ('p, 'c) graph" where
  "icp_loop2D env params curr_laser_scan [] (d, g) = (d, g)"
| "icp_loop2D env params curr_laser_scan (node # rest) (d, g) =
     (case m_nodes_to_laser_scans2D d node of
        None \<Rightarrow> icp_loop2D env params curr_laser_scan rest (d, g)
      | Some prev_laser_scan \<Rightarrow>
          (let (rel_edge, goodness) = getICPEdge2D env prev_laser_scan curr_laser_scan in
           if goodness > ICP_goodness_thresh params then
             (let g1 = registerNewEdge node (nodeCount g - 1) rel_edge g;
                  d1 = d\<lparr>m_edge_types_to_nums := increment ''ICP2D'' (m_edge_types_to_nums d)\<rparr>;
                  d2 = (if \<bar>int (nodeCount g1 - 1) - int node\<bar> > LC_min_nodeid_diff params
                        then d1\<lparr>m_edge_types_to_nums := increment ''LC'' (m_edge_types_to_nums d1),
                                m_just_inserted_loop_closure := True\<rparr>
                        else d1)
              in icp_loop2D env params curr_laser_scan rest (d2, g1))
           else icp_loop2D env params curr_laser_scan rest (d, g)))"

definition checkRegistrationCondition2D ::
  "('p, 's2, 's3, 'c) collaborators \<Rightarrow> TParams \<Rightarrow> nat list
     \<Rightarrow> ('s2, 's3) decider \<times> ('p, 'c) graph \<Rightarrow> ('s2, 's3) decider \<times> ('p, 'c) graph" where
  "checkRegistrationCondition2D env params nodes_set dg =
     (case m_nodes_to_laser_scans2D (fst dg) (nodeCount (snd dg) - 1) of
        None \<Rightarrow> dg
      | Some curr_laser_scan \<Rightarrow> icp_loop2D env params curr_laser_scan nodes_set dg)"

fun icp_loop3D ::
  "('p, 's2, 's3, 'c) collaborators \<Rightarrow> TParams \<Rightarrow> 's3 \<Rightarrow> nat list
     \<Rightarrow> ('s2, 's3) decider \<times> ('p, 'c) graph \<Rightarrow> ('s2, 's3) decider \<times> ('p, 'c) graph" where
  "icp_loop3D env params curr_laser_scan [] (d, g) = (d, g)"
| "icp_loop3D env params curr_laser_scan (node # rest) (d, g) =
     (case m_nodes_to_laser_scans3D d node of
        None \<Rightarrow> icp_loop3D env params curr_laser_scan rest (d, g)
      | Some prev_laser_scan \<Rightarrow>
          (let (rel_edge, goodness) = getICPEdge3D env prev_laser_scan curr_laser_scan in
           if goodness > ICP_goodness_thresh params then
             (let g1 = registerNewEdge node (nodeCount g - 1) rel_edge g;
                  d1 = d\<lparr>m_edge_types_to_nums := increment ''ICP3D'' (m_edge_types_to_nums d)\<rparr>;
                  d2 = (if \<bar>int (nodeCount g1 - 1) - int node\<bar> > LC_min_nodeid_diff params
                        then d1\<lparr>m_edge_types_to_nums := increment ''LC'' (m_edge_types_to_nums d1),
                                m_just_inserted_loop_closure := True\<rparr>
                        else d1)
              in icp_loop3D env params curr_laser_scan rest (d2, g1))
           else icp_loop3D env params curr_laser_scan rest (d, g)))"

definition checkRegistrationCondition3D ::
  "('p, 's2, 's3, 'c) collaborators \<Rightarrow> TParams \<Rightarrow> nat list
     \<Rightarrow> ('s2, 's3) decider \<times> ('p, 'c) graph \<Rightarrow> ('s2, 's3) decider \<times> ('p, 'c) graph" where
  "checkRegistrationCondition3D env params nodes_set dg =
     (case m_nodes_to_laser_scans3D (fst dg) (nodeCount (snd dg) - 1) of
        None \<Rightarrow> dg
      | Some curr_laser_scan \<Rightarrow> icp_loop3D env params curr_laser_scan nodes_set dg)"

subsection \<open>One step of the decider: \<^verbatim>\<open>updateDeciderState\<close>\<close>

text \<open>Lines 73-80: the check for a node registered since the last call. It returns
  \<^verbatim>\<open>registered_new_node\<close> and the decider.\<close>

definition detect_new_node ::
  "('s2, 's3) decider \<Rightarrow> ('p, 'c) graph \<Rightarrow> bool \<times> ('s2, 's3) decider" where
  "detect_new_node d g =
     (if m_last_total_num_of_nodes d < nodeCount g
      then (True, d\<lparr>m_last_total_num_of_nodes := nodeCount g\<rparr>)
      else (False, d))"

text \<open>Lines 82-120: a single observation is present.\<close>

definition ingest_observation ::
  "('p, 's2, 's3, 'c) collaborators \<Rightarrow> ('s2, 's3) observation \<Rightarrow> bool \<Rightarrow> ('p, 'c) graph
     \<Rightarrow> ('s2, 's3) decider \<Rightarrow> ('s2, 's3) decider" where
  "ingest_observation env observation registered_new_node g d =
     (let d1 = (case observation of
                  Observation2DRangeScan s \<Rightarrow>
                    d\<lparr>m_last_laser_scan2D := Some s, m_is_using_3DScan := False\<rparr>
                | _ \<Rightarrow> d);
          d2 = (case observation of
                  Observation3DRangeScan s \<Rightarrow>
                    d1\<lparr>m_last_laser_scan3D := Some (load3D env s),
                       m_fake_laser_scan2D := convert3DTo2DRangeScan env (load3D env s),
                       m_is_using_3DScan := True\<rparr>
                | _ \<Rightarrow> d1)
      in
        if registered_new_node then
          (let d3 = (case m_last_laser_scan2D d2 of
                       Some s \<Rightarrow>
                         d2\<lparr>m_nodes_to_laser_scans2D :=
                              (m_nodes_to_laser_scans2D d2)(nodeCount g - 1 \<mapsto> s)\<rparr>
                     | None \<Rightarrow> d2)
           in (case m_last_laser_scan3D d3 of
                 Some s \<Rightarrow>
                   d3\<lparr>m_nodes_to_laser_scans3D :=
                        (m_nodes_to_laser_scans3D d3)(nodeCount g - 1 \<mapsto> s)\<rparr>
               | None \<Rightarrow> d3))
        else d2)"

text \<open>Lines 121-130: no single observation, the sensory frame \<open>observations\<close> is read
  (the frame pointer is not null then: one of the two is present in every call).\<close>

definition ingest_frame ::
  "('s2, 's3) observation list \<Rightarrow> bool \<Rightarrow> ('p, 'c) graph
     \<Rightarrow> ('s2, 's3) decider \<Rightarrow> ('s2, 's3) decider" where
  "ingest_frame observations registered_new_node g d =
     (let d1 = d\<lparr>m_last_laser_scan2D := getObservationByClass2D observations\<rparr> in
      case m_last_laser_scan2D d1 of
        Some s \<Rightarrow>
          if registered_new_node
          then d1\<lparr>m_nodes_to_laser_scans2D := (m_nodes_to_laser_scans2D d1)(nodeCount g - 1 \<mapsto> s)\<rparr>
          else d1
      | None \<Rightarrow> d1)"

definition ingest ::
  "('p, 's2, 's3, 'c) collaborators \<Rightarrow> ('s2, 's3) observation list \<Rightarrow> ('s2, 's3) observation option
     \<Rightarrow> bool \<Rightarrow> ('p, 'c) graph \<Rightarrow> ('s2, 's3) decider \<Rightarrow> ('s2, 's3) decider" where
  "ingest env observations observation registered_new_node g d =
     (case observation of
        Some obs \<Rightarrow> ingest_observation env obs registered_new_node g d
      | None \<Rightarrow> ingest_frame observations registered_new_node g d)"

text \<open>Lines 133-153: the edge registration procedure of a step that registered a node.\<close>

definition register_edges ::
  "('p, 's2, 's3, 'c) collaborators \<Rightarrow> TParams
     \<Rightarrow> ('s2, 's3) decider \<times> ('p, 'c) graph \<Rightarrow> ('s2, 's3) decider \<times> ('p, 'c) graph" where
  "register_edges env params dg =
     (let nodes_to_check_ICP =
            getNearbyNodesOf env (snd dg) [] (nodeCount (snd dg) - 1) (ICP_max_distance params);
          d1 = (fst dg)\<lparr>m_just_inserted_loop_closure := False\<rparr>
      in
        if m_is_using_3DScan d1
        then checkRegistrationCondition3D env params nodes_to_check_ICP (d1, snd dg)
        else checkRegistrationCondition2D env params nodes_to_check_ICP (d1, snd dg))"

text \<open>\<^verbatim>\<open>checkIfInvalidDataset\<close> (the five-second sleep after the diagnostic is left out).\<close>

definition checkIfInvalidDataset ::
  "('s2, 's3) observation option \<Rightarrow> ('s2, 's3) decider \<Rightarrow> ('s2, 's3) decider" where
  "checkIfInvalidDataset observation d =
     (case observation of
        Some ObservationOther \<Rightarrow>
          (let d1 = d\<lparr>m_consecutive_invalid_format_instances :=
                        m_consecutive_invalid_format_instances d + 1\<rparr>
           in if m_consecutive_invalid_format_instances d1
                   > m_consecutive_invalid_format_instances_thres
              then d1\<lparr>m_checked_for_usuable_dataset := True\<rparr>
              else d1)
      | _ \<Rightarrow> d\<lparr>m_checked_for_usuable_dataset := True\<rparr>)"

text \<open>\<^verbatim>\<open>updateDeciderState(action, observations, observation)\<close> on the decider and the
  graph it points to; \<^verbatim>\<open>action\<close> is unused.\<close>

definition updateDeciderState ::
  "('p, 's2, 's3, 'c) collaborators \<Rightarrow> TParams
     \<Rightarrow> ('s2, 's3) observation list \<Rightarrow> ('s2, 's3) observation option
     \<Rightarrow> ('s2, 's3) decider \<times> ('p, 'c) graph \<Rightarrow> ('s2, 's3) decider \<times> ('p, 'c) graph" where
  "updateDeciderState env params observations observation dg =
     (let (registered_new_node, d1) = detect_new_node (fst dg) (snd dg);
          d2 = ingest env observations observation registered_new_node (snd dg) d1;
          dg3 = (if registered_new_node then register_edges env params (d2, snd dg)
                 else (d2, snd dg))
      in
        (if \<not> m_checked_for_usuable_dataset (fst dg3)
         then checkIfInvalidDataset observation (fst dg3)
         else fst dg3,
         snd dg3))"

text \<open>A session: the driver calls \<^verbatim>\<open>updateDeciderState\<close> once per step, each time on the
  graph as it is then (the driver owns the graph and may have changed it in any way since
  the last call) and with that step's sensory frame and observation.\<close>

fun run_updates ::
  "('p, 's2, 's3, 'c) collaborators \<Rightarrow> TParams \<Rightarrow> ('s2, 's3) decider
     \<Rightarrow> (('p, 'c) graph \<times> ('s2, 's3) observation list \<times> ('s2, 's3) observation option) list
     \<Rightarrow> ('s2, 's3) decider" where
  "run_updates env params d [] = d"
| "run_updates env params d ((g, observations, observation) # steps) =
     run_updates env params
       (fst (updateDeciderState env params observations observation (d, g))) steps"

section \<open>Predicates and concrete inputs of the theorems\<close>

subsection \<open>Notions of the statements\<close>

text \<open>A cell index pair that lies outside the \<open>size_x \<times> size_y\<close> array.\<close>

definition outside_grid :: "grid \<Rightarrow> int \<Rightarrow> int \<Rightarrow> bool" where
  "outside_grid g cx cy = (cx < 0 \<or> cy < 0 \<or> cx \<ge> int (size_x g) \<or> cy \<ge> int (size_y g))"

text \<open>
  The edge that the pairwise ICP of candidate \<open>node\<close> against the new node \<open>new_id\<close>
  yields, read off a scan registry: there is one when both nodes have a scan in the
  registry and the goodness that the ICP solver reports for the two scans is strictly
  greater than \<^verbatim>\<open>ICP_goodness_thresh\<close>.
\<close>

definition accepted_edge ::
  "('s \<Rightarrow> 's \<Rightarrow> 'c \<times> real) \<Rightarrow> TParams \<Rightarrow> (nat \<rightharpoonup> 's) \<Rightarrow> nat \<Rightarrow> nat \<Rightarrow> (nat \<times> nat \<times> 'c) option" where
  "accepted_edge icp params registry new_id node =
     (case registry node of
        None \<Rightarrow> None
      | Some prev \<Rightarrow>
          (case registry new_id of
             None \<Rightarrow> None
           | Some cscan \<Rightarrow>
               if snd (icp prev cscan) > ICP_goodness_thresh params
               then Some (node, new_id, fst (icp prev cscan))
               else None))"

text \<open>The id gap of an edge \<open>(from, to, constraint)\<close> exceeds \<^verbatim>\<open>LC_min_nodeid_diff\<close>.\<close>

definition id_gap_exceeds :: "TParams \<Rightarrow> nat \<times> nat \<times> 'c \<Rightarrow> bool" where
  "id_gap_exceeds params e = (\<bar>int (fst (snd e)) - int (fst e)\<bar> > LC_min_nodeid_diff params)"

text \<open>The edges that a call appended to the graph \<open>g\<close>, given the graph \<open>g'\<close> after it.\<close>

definition new_edges :: "('p, 'c) graph \<Rightarrow> ('p, 'c) graph \<Rightarrow> (nat \<times> nat \<times> 'c) list" where
  "new_edges g g' = drop (length (edges g)) (edges g')"

text \<open>The decider without its edge counters and its loop-closure flag.\<close>

definition unregistered_part :: "('s2, 's3) decider \<Rightarrow> ('s2, 's3) decider" where
  "unregistered_part d =
     d\<lparr>m_edge_types_to_nums := Map.empty, m_just_inserted_loop_closure := False\<rparr>"

text \<open>
  The effect of registering the edges \<open>acc\<close> under the counter \<open>label\<close>: the edges are
  appended to the graph in order; each counts once under \<open>label\<close> and, when its id gap
  exceeds \<^verbatim>\<open>LC_min_nodeid_diff\<close>, once more under \<^verbatim>\<open>"LC"\<close>; the loop-closure flag is
  set when there is such an edge; nothing else of the decider changes.
\<close>

definition registration_effect ::
  "TParams \<Rightarrow> string \<Rightarrow> (nat \<times> nat \<times> 'c) list
     \<Rightarrow> ('s2, 's3) decider \<times> ('p, 'c) graph \<Rightarrow> ('s2, 's3) decider \<times> ('p, 'c) graph \<Rightarrow> bool" where
  "registration_effect params label acc dg dg' =
     (snd dg' = (snd dg)\<lparr>edges := edges (snd dg) @ acc\<rparr>
      \<and> unregistered_part (fst dg') = unregistered_part (fst dg)
      \<and> (\<forall>l. edge_count (m_edge_types_to_nums (fst dg')) l
               = edge_count (m_edge_types_to_nums (fst dg)) l
                 + (if l = label then int (length acc) else 0)
                 + (if l = ''LC'' then int (length (filter (id_gap_exceeds params) acc)) else 0))
      \<and> m_just_inserted_loop_closure (fst dg')
           = (m_just_inserted_loop_closure (fst dg) \<or> (\<exists>e \<in> set acc. id_gap_exceeds params e)))"

text \<open>
  The edges that the edge registration of one step is to append, for a decider \<open>d\<close> that
  has ingested the step's scan: one for each candidate of \<^verbatim>\<open>getNearbyNodesOf\<close>, in
  ascending order, that the pairwise ICP on the registry of the active mode accepts.
\<close>

definition registered_edges ::
  "('p, 's2, 's3, 'c) collaborators \<Rightarrow> TParams \<Rightarrow> ('s2, 's3) decider \<Rightarrow> ('p, 'c) graph
     \<Rightarrow> (nat \<times> nat \<times> 'c) list" where
  "registered_edges env params d g =
     (let candidates = getNearbyNodesOf env g [] (nodeCount g - 1) (ICP_max_distance params) in
      if m_is_using_3DScan d
      then List.map_filter
             (accepted_edge (getICPEdge3D env) params (m_nodes_to_laser_scans3D d) (nodeCount g - 1))
             candidates
      else List.map_filter
             (accepted_edge (getICPEdge2D env) params (m_nodes_to_laser_scans2D d) (nodeCount g - 1))
             candidates)"

subsection \<open>Concrete inputs\<close>

text \<open>A strip of four free cells of one metre each; cell indices are the floors of the
  coordinates, the free threshold is the log-odds 0.\<close>

definition strip_grid :: grid where
  "strip_grid =
     \<lparr>size_x = 4, size_y = 1, resolution = 1, map_cells = [10, 10, 10, 10],
      x2idx = (\<lambda>v. \<lfloor>v\<rfloor>), y2idx = (\<lambda>v. \<lfloor>v\<rfloor>), p2l = (\<lambda>p. 0)\<rparr>"

text \<open>
  Concrete collaborators for the decider: poses are positions on a line and their
  distance is the absolute difference, scans are numbered, and the ICP solver reports the
  goodness 0.9 for every pair of scans.
\<close>

definition line_env :: "(real, nat, nat, unit) collaborators" where
  "line_env =
     \<lparr>distanceTo = (\<lambda>a b. \<bar>a - b\<bar>),
      getICPEdge2D = (\<lambda>prev cscan. ((), 0.9)),
      getICPEdge3D = (\<lambda>prev cscan. ((), 0.9)),
      load3D = (\<lambda>s. s),
      convert3DTo2DRangeScan = (\<lambda>s. None)\<rparr>"

text \<open>The same collaborators with an ICP solver that reports the goodness 0.7.\<close>

definition poor_env :: "(real, nat, nat, unit) collaborators" where
  "poor_env = line_env\<lparr>getICPEdge2D := (\<lambda>prev cscan. ((), 0.7)),
                       getICPEdge3D := (\<lambda>prev cscan. ((), 0.7))\<rparr>"

text \<open>The defaults of \<^verbatim>\<open>loadFromConfigFile\<close>; the same with a loop-closure gap of 1; and
  the same with \<^verbatim>\<open>ICP_max_distance = 0\<close> ("consider all nodes").\<close>

definition default_params :: TParams where
  "default_params = \<lparr>ICP_max_distance = 10, ICP_goodness_thresh = 0.75, LC_min_nodeid_diff = 10\<rparr>"

definition gap1_params :: TParams where
  "gap1_params = \<lparr>ICP_max_distance = 10, ICP_goodness_thresh = 0.75, LC_min_nodeid_diff = 1\<rparr>"

definition all_nodes_params :: TParams where
  "all_nodes_params = \<lparr>ICP_max_distance = 0, ICP_goodness_thresh = 0.75, LC_min_nodeid_diff = 10\<rparr>"

text \<open>A graph of \<open>n\<close> nodes one metre apart on the line, with the edges \<open>es\<close>.\<close>

definition line_graph :: "nat \<Rightarrow> (nat \<times> nat \<times> unit) list \<Rightarrow> (real, unit) graph" where
  "line_graph n es = \<lparr>nodes = map real [0..<n], edges = es\<rparr>"

definition fresh_decider :: "(nat, nat) decider" where
  "fresh_decider = initCICPGoodnessERD_t"

text \<open>A session of 2D scans: the graph grows from three to five nodes, one node and one
  scan per step, and a fourth scan arrives while the graph still has five nodes.\<close>

definition session2D_1 :: "(nat, nat) decider \<times> (real, unit) graph" where
  "session2D_1 = updateDeciderState line_env gap1_params [] (Some (Observation2DRangeScan 100))
                   (fresh_decider, line_graph 3 [])"

definition session2D_2 :: "(nat, nat) decider \<times> (real, unit) graph" where
  "session2D_2 = updateDeciderState line_env gap1_params [] (Some (Observation2DRangeScan 101))
                   (fst session2D_1, line_graph 4 (edges (snd session2D_1)))"

definition session2D_3 :: "(nat, nat) decider \<times> (real, unit) graph" where
  "session2D_3 = updateDeciderState line_env gap1_params [] (Some (Observation2DRangeScan 102))
                   (fst session2D_2, line_graph 5 (edges (snd session2D_2)))"

definition session2D_4 :: "(nat, nat) decider \<times> (real, unit) graph" where
  "session2D_4 = updateDeciderState line_env gap1_params [] (Some (Observation2DRangeScan 103))
                   session2D_3"

text \<open>A session in which a 3D scan is followed by two 2D scans, one node per step.\<close>

definition session3D_1 :: "(nat, nat) decider \<times> (real, unit) graph" where
  "session3D_1 = updateDeciderState line_env default_params [] (Some (Observation3DRangeScan 300))
                   (fresh_decider, line_graph 3 [])"

definition session3D_2 :: "(nat, nat) decider \<times> (real, unit) graph" where
  "session3D_2 = updateDeciderState line_env default_params [] (Some (Observation2DRangeScan 201))
                   (fst session3D_1, line_graph 4 (edges (snd session3D_1)))"

definition session3D_3 :: "(nat, nat) decider \<times> (real, unit) graph" where
  "session3D_3 = updateDeciderState line_env default_params [] (Some (Observation2DRangeScan 202))
                   (fst session3D_2, line_graph 5 (edges (snd session3D_2)))"

text \<open>
  Concrete inputs of the simulators: the sensor sits at the robot's origin and rounding is
  to the nearest integer; the strip with its third cell occupied; a robot on the lower
  edge of the strip, half a metre from its left end, looking along it; a sonar with one
  transducer and a cone of one degree, which fans two rays; a laser scan request.
\<close>

definition plain_helpers :: "unit sim_helpers" where
  "plain_helpers = \<lparr>sensor_in_map = (\<lambda>robot sp. robot), mrpt_round = round\<rparr>"

definition wall_grid :: grid where
  "wall_grid =
     \<lparr>size_x = 4, size_y = 1, resolution = 1, map_cells = [10, 10, - 10, 10],
      x2idx = (\<lambda>v. \<lfloor>v\<rfloor>), y2idx = (\<lambda>v. \<lfloor>v\<rfloor>), p2l = (\<lambda>p. 0)\<rparr>"

definition edge_robot :: pose2D where
  "edge_robot = \<lparr>pose_x = 1 / 2, pose_y = 0, pose_phi = 0\<rparr>"

definition sonar_request :: "real \<Rightarrow> unit measurement list \<Rightarrow> unit range_observation" where
  "sonar_request cone ms = \<lparr>sensedData = ms, maxSensorDistance = 3, sensorConeApperture = cone\<rparr>"

definition one_transducer :: "real \<Rightarrow> unit measurement list" where
  "one_transducer v = [\<lparr>measurement_sensorPose = (), sensedDistance = v\<rparr>]"

definition scan_request :: "unit range_scan" where
  "scan_request =
     \<lparr>scan = [], validRange = [], aperture = 0, rightToLeft = True, maxRange = 3, sensorPose = ()\<rparr>"

section \<open>Theorems about the ray simulator\<close>

subsection \<open>Casts and bounds\<close>

lemma cast_int_le: "cast_int u \<le> int u"
proof -
  define r where "r = u mod 2 ^ 32"
  have "r \<le> u" unfolding r_def by (rule mod_less_eq_dividend)
  then have "(if r < 2 ^ 31 then int r else int r - 2 ^ 32) \<le> int u" by simp
  then show ?thesis by (simp only: cast_int_def r_def)
qed

text \<open>For grid sizes that fit an \<^verbatim>\<open>int\<close>, the loop's bounds test is the plain one.\<close>

lemma in_grid_plain:
  assumes "size_x g < 2 ^ 31" and "size_y g < 2 ^ 31"
  shows "in_grid g cx cy \<longleftrightarrow> 0 \<le> cx \<and> cx < int (size_x g) \<and> 0 \<le> cy \<and> cy < int (size_y g)"
proof -
  have "cast_int (size_x g) = int (size_x g)" "cast_int (size_y g) = int (size_y g)"
    using assms by (simp_all add: cast_int_def)
  then show ?thesis by (auto simp: in_grid_def)
qed

lemma cast_unsigned_in_grid:
  assumes "in_grid g cx cy"
  shows "cast_unsigned cx < size_x g" and "cast_unsigned cy < size_y g"
proof -
  have a: "0 \<le> cx" "cx < cast_int (size_x g)" "0 \<le> cy" "cy < cast_int (size_y g)"
    using assms by (simp_all add: in_grid_def)
  have "size_x g mod 2 ^ 32 < 2 ^ 32" "size_y g mod 2 ^ 32 < 2 ^ 32"
    by simp_all
  then have b: "cast_int (size_x g) \<le> 2 ^ 31" "cast_int (size_y g) \<le> 2 ^ 31"
    unfolding cast_int_def by (simp_all del: mod_less_divisor)
  have "cx mod 2 ^ 32 = cx" "cy mod 2 ^ 32 = cy"
    using a b by simp_all
  then show "cast_unsigned cx < size_x g" "cast_unsigned cy < size_y g"
    using a cast_int_le [of "size_x g"] cast_int_le [of "size_y g"]
    by (simp_all add: cast_unsigned_def)
qed

lemma ray_march_free:
  assumes "ray_len s \<le> m"
    and "\<And>j. j \<le> m - ray_len s \<Longrightarrow>
           in_grid g (x2idx g (rx s + real j * Arx)) (y2idx g (ry s + real j * Ary))
           \<and> thr < cell_at g (x2idx g (rx s + real j * Arx)) (y2idx g (ry s + real j * Ary))
           \<and> 1 < \<bar>cell_at g (x2idx g (rx s + real j * Arx)) (y2idx g (ry s + real j * Ary))\<bar>"
  shows "ray_len (ray_march g Arx Ary thr m s) = m
       \<and> in_grid g (x_idx (ray_march g Arx Ary thr m s)) (y_idx (ray_march g Arx Ary thr m s))
       \<and> 1 < \<bar>hitCellOcc_int (ray_march g Arx Ary thr m s)\<bar>"
  using assms
proof (induction "m - ray_len s" arbitrary: s)
  case 0
  then have len: "ray_len s = m" by simp
  from "0.prems"(2) [of 0] show ?case
    by (subst (1 2 3 4) ray_march.simps) (simp add: Let_def len in_grid_def)
next
  case (Suc d)
  let ?x = "x2idx g (rx s)" and ?y = "y2idx g (ry s)"
  let ?s' = "s\<lparr>x_idx := ?x, y_idx := ?y, hitCellOcc_int := cell_at g ?x ?y,
                firstUnknownCellDist := firstUnknownCellDist s,
                rx := rx s + Arx, ry := ry s + Ary, ray_len := ray_len s + 1\<rparr>"
  from Suc.hyps(2) have lt: "ray_len s < m" by simp
  from Suc.prems(2) [of 0] have here: "in_grid g ?x ?y" "thr < cell_at g ?x ?y" "1 < \<bar>cell_at g ?x ?y\<bar>"
    by simp_all
  have step: "ray_march g Arx Ary thr m s = ray_march g Arx Ary thr m ?s'"
    using here lt by (subst ray_march.simps) (simp add: Let_def in_grid_def)
  have "ray_len (ray_march g Arx Ary thr m ?s') = m
       \<and> in_grid g (x_idx (ray_march g Arx Ary thr m ?s')) (y_idx (ray_march g Arx Ary thr m ?s'))
       \<and> 1 < \<bar>hitCellOcc_int (ray_march g Arx Ary thr m ?s')\<bar>"
  proof (rule Suc.hyps(1))
    show "d = m - ray_len ?s'" using Suc.hyps(2) by simp
    show "ray_len ?s' \<le> m" using lt by simp
    fix j assume j: "j \<le> m - ray_len ?s'"
    then have "Suc j \<le> m - ray_len s" using lt by simp
    from Suc.prems(2) [OF this]
    show "in_grid g (x2idx g (rx ?s' + real j * Arx)) (y2idx g (ry ?s' + real j * Ary))
           \<and> thr < cell_at g (x2idx g (rx ?s' + real j * Arx)) (y2idx g (ry ?s' + real j * Ary))
           \<and> 1 < \<bar>cell_at g (x2idx g (rx ?s' + real j * Arx)) (y2idx g (ry ?s' + real j * Ary))\<bar>"
      by (simp add: algebra_simps)
  qed
  with step show ?case by simp
qed

lemma outside_grid_not_in_grid: "outside_grid g cx cy \<Longrightarrow> \<not> in_grid g cx cy"
  using cast_int_le [of "size_x g"] cast_int_le [of "size_y g"]
  by (auto simp: outside_grid_def in_grid_def)

lemma ray_trace_not_in_grid:
  assumes "\<not> in_grid g (x2idx g start_x) (y2idx g start_y)"
  shows "ray_len (ray_trace g start_x start_y a m t) = 0
       \<and> hitCellOcc_int (ray_trace g start_x start_y a m t) = 0
       \<and> firstUnknownCellDist (ray_trace g start_x start_y a m t) = (m + 1) mod 2 ^ 32"
  using assms unfolding ray_trace_def
  by (subst (1 2 3) ray_march.simps) (simp add: Let_def ray_init_def in_grid_def)

text \<open>
  Claim C10. When the start point of a ray maps to a cell index pair outside the grid
  (\<^verbatim>\<open>x2idx(start_x)\<close> or \<^verbatim>\<open>y2idx(start_y)\<close> out of range), the loop of
  \<^verbatim>\<open>simulateScanRay\<close> takes no step (\<^verbatim>\<open>ray_len\<close> stays 0), the range written is 0
  and the validity flag is false, whatever the angle, the noise settings and the samples
  of the Gaussian source.
\<close>

theorem simulateScanRay_start_outside_grid:
  assumes "outside_grid g (x2idx g start_x) (y2idx g start_y)"
  shows "ray_len (ray_trace g start_x start_y
            (fst (perturbed_angle gauss k angle_direction angleNoiseStd)) max_ray_len threshold_free) = 0
       \<and> fst (simulateScanRay g gauss k start_x start_y angle_direction max_ray_len threshold_free
              noiseStd angleNoiseStd) = 0
       \<and> \<not> fst (snd (simulateScanRay g gauss k start_x start_y angle_direction max_ray_len
              threshold_free noiseStd angleNoiseStd))"
proof -
  obtain a k1 where pa: "perturbed_angle gauss k angle_direction angleNoiseStd = (a, k1)"
    by (cases "perturbed_angle gauss k angle_direction angleNoiseStd")
  note tr = ray_trace_not_in_grid [OF outside_grid_not_in_grid [OF assms], of a max_ray_len threshold_free]
  show ?thesis
    using tr by (simp add: simulateScanRay_def pa)
qed

text \<open>
  Claim C8. With \<open>noiseStd = 0\<close> and \<open>angleNoiseStd = 0\<close>, when every cell that the ray
  visits in its \<open>max_ray_len\<close> steps (the start cell and the cell reached after each step)
  passes the loop's bounds test, is strictly freer than the free threshold
  (\<^verbatim>\<open>> p2l(threshold_free)\<close>) and is not unknown (\<^verbatim>\<open>abs\<close> above 1), \<^verbatim>\<open>simulateScanRay\<close>
  reports the range \<open>max_ray_len * resolution\<close> and the validity flag false, and draws no
  sample.
\<close>

theorem simulateScanRay_free_grid:
  assumes "\<forall>j \<le> max_ray_len.
      in_grid g (x2idx g (start_x + real j * (cos a * resolution g)))
                (y2idx g (start_y + real j * (sin a * resolution g)))
      \<and> p2l g threshold_free < cell_at g (x2idx g (start_x + real j * (cos a * resolution g)))
                (y2idx g (start_y + real j * (sin a * resolution g)))
      \<and> 1 < \<bar>cell_at g (x2idx g (start_x + real j * (cos a * resolution g)))
                (y2idx g (start_y + real j * (sin a * resolution g)))\<bar>"
  shows "simulateScanRay g gauss k start_x start_y a max_ray_len threshold_free 0 0
         = (real max_ray_len * resolution g, False, k)"
proof -
  let ?ini = "ray_init g start_x start_y max_ray_len"
  let ?s = "ray_trace g start_x start_y a max_ray_len threshold_free"
  have s0: "rx ?ini = start_x" "ry ?ini = start_y" "ray_len ?ini = 0"
    by (simp_all add: ray_init_def)
  have fin: "ray_len ?s = max_ray_len \<and> in_grid g (x_idx ?s) (y_idx ?s) \<and> 1 < \<bar>hitCellOcc_int ?s\<bar>"
    unfolding ray_trace_def
    by (rule ray_march_free) (use assms in \<open>simp_all add: s0\<close>)
  then have "\<not> \<bar>hitCellOcc_int ?s\<bar> \<le> 1" "\<not> cast_unsigned (x_idx ?s) \<ge> size_x g"
    "\<not> cast_unsigned (y_idx ?s) \<ge> size_y g"
    using cast_unsigned_in_grid [of g "x_idx ?s" "y_idx ?s"] by simp_all
  with fin show ?thesis
    by (simp add: simulateScanRay_def perturbed_angle_def Let_def)
qed

text \<open>Witnesses on the strip of four free cells: a ray of three steps along the strip,
  and a ray that starts one metre before the strip.\<close>

lemma le_3_cases: "(j::nat) \<le> 3 \<longleftrightarrow> j = 0 \<or> j = 1 \<or> j = 2 \<or> j = 3"
  by auto

theorem simulateScanRay_free_grid_witness:
  "simulateScanRay strip_grid (\<lambda>i. 0) 0 (1/2) (1/2) 0 3 (1/2) 0 0 = (3, False, 0)"
  using simulateScanRay_free_grid [of 3 strip_grid "1/2" 0 "1/2" "1/2" "\<lambda>i. 0" 0]
  by (auto simp add: strip_grid_def le_3_cases in_grid_def cell_at_def cast_int_def cast_unsigned_def)

theorem simulateScanRay_start_outside_grid_witness:
  "outside_grid strip_grid (x2idx strip_grid (-1)) (y2idx strip_grid (1/2))
   \<and> ray_len (ray_trace strip_grid (-1) (1/2) (fst (perturbed_angle (\<lambda>i. 0) 0 0 0)) 3 (1/2)) = 0
   \<and> fst (simulateScanRay strip_grid (\<lambda>i. 0) 0 (-1) (1/2) 0 3 (1/2) 0 0) = 0
   \<and> \<not> fst (snd (simulateScanRay strip_grid (\<lambda>i. 0) 0 (-1) (1/2) 0 3 (1/2) 0 0))"
  using simulateScanRay_start_outside_grid [of strip_grid "-1" "1/2" "\<lambda>i. 0" 0 0 0 3 "1/2" 0]
  by (simp add: strip_grid_def outside_grid_def)

text \<open>The loop runs through cells that are inside the grid, free and known, and ends at the
  step limit, wherever the ray is then.\<close>

lemma ray_march_through_free:
  assumes "ray_len s \<le> m"
    and "\<And>j. j < m - ray_len s \<Longrightarrow>
           in_grid g (x2idx g (rx s + real j * Arx)) (y2idx g (ry s + real j * Ary))
           \<and> thr < cell_at g (x2idx g (rx s + real j * Arx)) (y2idx g (ry s + real j * Ary))
           \<and> 1 < \<bar>cell_at g (x2idx g (rx s + real j * Arx)) (y2idx g (ry s + real j * Ary))\<bar>"
  shows "ray_len (ray_march g Arx Ary thr m s) = m
       \<and> firstUnknownCellDist (ray_march g Arx Ary thr m s) = firstUnknownCellDist s"
  using assms
proof (induction "m - ray_len s" arbitrary: s)
  case 0
  then have "ray_len s = m" by simp
  then show ?case
    by (subst (1 2) ray_march.simps) (simp add: Let_def)
next
  case (Suc d)
  let ?x = "x2idx g (rx s)" and ?y = "y2idx g (ry s)"
  let ?t = "s\<lparr>x_idx := ?x, y_idx := ?y, hitCellOcc_int := cell_at g ?x ?y,
              firstUnknownCellDist := firstUnknownCellDist s,
              rx := rx s + Arx, ry := ry s + Ary, ray_len := ray_len s + 1\<rparr>"
  from Suc.hyps(2) have lt: "ray_len s < m" by simp
  from Suc.prems(2) [of 0] lt
  have here: "in_grid g ?x ?y" "thr < cell_at g ?x ?y" "1 < \<bar>cell_at g ?x ?y\<bar>"
    by simp_all
  have step: "ray_march g Arx Ary thr m s = ray_march g Arx Ary thr m ?t"
    using here lt by (subst ray_march.simps) (simp add: Let_def in_grid_def)
  have "ray_len (ray_march g Arx Ary thr m ?t) = m
       \<and> firstUnknownCellDist (ray_march g Arx Ary thr m ?t) = firstUnknownCellDist ?t"
  proof (rule Suc.hyps(1))
    show "d = m - ray_len ?t" using Suc.hyps(2) by simp
    show "ray_len ?t \<le> m" using lt by simp
    fix j assume "j < m - ray_len ?t"
    then have "Suc j < m - ray_len s" by simp
    from Suc.prems(2) [OF this]
    show "in_grid g (x2idx g (rx ?t + real j * Arx)) (y2idx g (ry ?t + real j * Ary))
           \<and> thr < cell_at g (x2idx g (rx ?t + real j * Arx)) (y2idx g (ry ?t + real j * Ary))
           \<and> 1 < \<bar>cell_at g (x2idx g (rx ?t + real j * Arx)) (y2idx g (ry ?t + real j * Ary))\<bar>"
      by (simp add: algebra_simps)
  qed
  with step show ?case by simp
qed

text \<open>
  A supplement to claim C8, for a ray whose \<open>max_ray_len\<close> steps all start in cells that
  are inside the grid, free and known, whatever lies at the position after the last step
  (a cell outside the grid, an unknown or an occupied one): the result is the same
  whenever \<^verbatim>\<open>max_ray_len+1\<close> does not wrap.
\<close>

lemma simulateScanRay_free_steps:
  assumes nowrap: "max_ray_len + 1 < 2 ^ 32"
    and free: "\<And>j. j < max_ray_len \<Longrightarrow>
      in_grid g (x2idx g (start_x + real j * (cos a * resolution g)))
                (y2idx g (start_y + real j * (sin a * resolution g)))
      \<and> p2l g threshold_free < cell_at g (x2idx g (start_x + real j * (cos a * resolution g)))
                (y2idx g (start_y + real j * (sin a * resolution g)))
      \<and> 1 < \<bar>cell_at g (x2idx g (start_x + real j * (cos a * resolution g)))
                (y2idx g (start_y + real j * (sin a * resolution g)))\<bar>"
  shows "simulateScanRay g gauss k start_x start_y a max_ray_len threshold_free 0 0
         = (real max_ray_len * resolution g, False, k)"
proof -
  let ?ini = "ray_init g start_x start_y max_ray_len"
  let ?s = "ray_trace g start_x start_y a max_ray_len threshold_free"
  have ini: "rx ?ini = start_x" "ry ?ini = start_y" "ray_len ?ini = 0"
    "firstUnknownCellDist ?ini = max_ray_len + 1"
    using nowrap by (simp_all add: ray_init_def)
  have "ray_len ?s = max_ray_len \<and> firstUnknownCellDist ?s = firstUnknownCellDist ?ini"
    unfolding ray_trace_def
    by (rule ray_march_through_free) (use free in \<open>simp_all add: ini\<close>)
  then have "ray_len ?s = max_ray_len" "\<not> firstUnknownCellDist ?s < ray_len ?s"
    by (simp_all add: ini)
  then show ?thesis
    by (simp add: simulateScanRay_def perturbed_angle_def Let_def)
qed

section \<open>Theorems about the laser and sonar simulators\<close>

text \<open>With a decimation of at least 1 the loop of \<^verbatim>\<open>laserScanSimulator\<close> returns.\<close>

lemma laser_loop_returns:
  assumes "decimation \<ge> 1"
  shows "laser_loop g gauss sensor_pose ray_args N decimation AA i A k out \<noteq> None"
proof (induction "N - i" arbitrary: i A k out rule: less_induct)
  case less
  show ?case
  proof (cases "i < N")
    case False
    then show ?thesis by (subst laser_loop.simps) simp
  next
    case True
    obtain max_ray_len free_thres noiseStd angleNoiseStd
      where ra: "ray_args = (max_ray_len, free_thres, noiseStd, angleNoiseStd)"
      by (cases ray_args) auto
    obtain out_range valid k'
      where ray: "simulateScanRay g gauss k (pose_x sensor_pose) (pose_y sensor_pose) A
                    max_ray_len free_thres noiseStd angleNoiseStd = (out_range, valid, k')"
      by (cases "simulateScanRay g gauss k (pose_x sensor_pose) (pose_y sensor_pose) A
                    max_ray_len free_thres noiseStd angleNoiseStd") auto
    have "N - (i + decimation) < N - i" using True assms by simp
    from less [OF this]
    have "laser_loop g gauss sensor_pose ray_args N decimation AA (i + decimation)
            (A + AA * real decimation) k'
            ((fst out)[i := out_range], (snd out)[i := (if valid then 1 else 0)]) \<noteq> None" .
    then show ?thesis using True by (subst laser_loop.simps) (simp add: ra ray)
  qed
qed

text \<open>\<^verbatim>\<open>sonar_loop\<close> fails exactly at a first transducer with a non-positive cone.\<close>

lemma sonar_cone_result:
  "sonar_cone h g gauss robotPose ray_args cone itR k
     = (if cone > 0
        then Inr (itR\<lparr>sensedDistance :=
                       fst (sonar_rays g gauss (sensor_in_map h robotPose (measurement_sensorPose itR))
                              ray_args (nat (mrpt_round h (1 + cone / (pi / 180)))) 
                              (cone / real (nat (mrpt_round h (1 + cone / (pi / 180))))) 0
                              (pose_phi (sensor_in_map h robotPose (measurement_sensorPose itR)) - 0.5 * cone)
                              0 k)\<rparr>,
                  snd (sonar_rays g gauss (sensor_in_map h robotPose (measurement_sensorPose itR))
                              ray_args (nat (mrpt_round h (1 + cone / (pi / 180)))) 
                              (cone / real (nat (mrpt_round h (1 + cone / (pi / 180))))) 0
                              (pose_phi (sensor_in_map h robotPose (measurement_sensorPose itR)) - 0.5 * cone)
                              0 k))
        else Inl (ASSERT_failed ''inout_observation.sensorConeApperture>0''))"
  by (simp add: sonar_cone_def Let_def case_prod_beta)

lemma sonar_loop_passes:
  "cone > 0 \<Longrightarrow> \<exists>data k'. sonar_loop h g gauss robotPose ray_args cone ms k = Inr (data, k')"
proof (induction ms arbitrary: k)
  case Nil
  show ?case by simp
next
  case (Cons itR rest)
  obtain itR' k1 where c: "sonar_cone h g gauss robotPose ray_args cone itR k = Inr (itR', k1)"
    using Cons.prems by (simp add: sonar_cone_result)
  from Cons.IH [OF Cons.prems, of k1]
  obtain data k' where "sonar_loop h g gauss robotPose ray_args cone rest k1 = Inr (data, k')"
    by blast
  then show ?case by (simp add: c)
qed

lemma sonar_loop_fails:
  "\<not> cone > 0 \<Longrightarrow> ms \<noteq> [] \<Longrightarrow>
   sonar_loop h g gauss robotPose ray_args cone ms k
     = Inl (ASSERT_failed ''inout_observation.sensorConeApperture>0'')"
  by (cases ms) (simp_all add: sonar_cone_result)

text \<open>
  Claim C9, amended. \<^verbatim>\<open>laserScanSimulator\<close> ends in a contract violation, with nothing
  written, for every call with \<open>N < 2\<close> or \<open>decimation < 1\<close>, and for all other arguments
  its checks pass and it returns the scan. \<^verbatim>\<open>sonarSimulator\<close> asserts the cone aperture
  inside its loop over the transducers: it ends in a contract violation, with nothing
  written, when the aperture is not strictly positive and the observation has at least
  one transducer; with a positive aperture, or with no transducer at all, it returns.
\<close>

theorem simulators_argument_checks:
  "(N < 2 \<or> decimation < 1 \<longrightarrow>
      (\<exists>msg. laserScanSimulator h g gauss k inout_Scan robotPose threshold N noiseStd decimation
                angleNoiseStd = Some (Inl (ASSERT_failed msg))))
   \<and> (\<not> (N < 2 \<or> decimation < 1) \<longrightarrow>
      (\<exists>out k'. laserScanSimulator h g gauss k inout_Scan robotPose threshold N noiseStd decimation
                angleNoiseStd = Some (Inr (out, k'))))
   \<and> (\<not> sensorConeApperture inout_observation > 0 \<and> sensedData inout_observation \<noteq> [] \<longrightarrow>
      (\<exists>msg. sonarSimulator h g gauss k inout_observation robotPose threshold rangeNoiseStd
                angleNoiseStd = Inl (ASSERT_failed msg)))
   \<and> (sensorConeApperture inout_observation > 0 \<or> sensedData inout_observation = [] \<longrightarrow>
      (\<exists>out k'. sonarSimulator h g gauss k inout_observation robotPose threshold rangeNoiseStd
                angleNoiseStd = Inr (out, k')))"
proof (intro conjI impI)
  assume "N < 2 \<or> decimation < 1"
  then show "\<exists>msg. laserScanSimulator h g gauss k inout_Scan robotPose threshold N noiseStd
                decimation angleNoiseStd = Some (Inl (ASSERT_failed msg))"
    by (auto simp: laserScanSimulator_def)
next
  assume ok: "\<not> (N < 2 \<or> decimation < 1)"
  then have "decimation \<ge> 1" by simp
  from laser_loop_returns [OF this]
  obtain r where "laser_loop g gauss (sensor_in_map h robotPose (sensorPose inout_Scan))
        (max_ray_len_of h g (maxRange inout_Scan), 1 - threshold, noiseStd, angleNoiseStd) N decimation
        ((if rightToLeft inout_Scan then 1.0 else - 1.0) * (aperture inout_Scan / real (N - 1))) 0
        (pose_phi (sensor_in_map h robotPose (sensorPose inout_Scan))
           + (if rightToLeft inout_Scan then - 0.5 else 0.5) * aperture inout_Scan) k
        (resize N 0 (scan inout_Scan), resize N 0 (validRange inout_Scan)) = Some r"
    by blast
  then show "\<exists>out k'. laserScanSimulator h g gauss k inout_Scan robotPose threshold N noiseStd
                decimation angleNoiseStd = Some (Inr (out, k'))"
    using ok by (cases r) (simp add: laserScanSimulator_def Let_def)
next
  assume "\<not> sensorConeApperture inout_observation > 0 \<and> sensedData inout_observation \<noteq> []"
  then show "\<exists>msg. sonarSimulator h g gauss k inout_observation robotPose threshold rangeNoiseStd
                angleNoiseStd = Inl (ASSERT_failed msg)"
    by (simp add: sonarSimulator_def Let_def sonar_loop_fails)
next
  assume a: "sensorConeApperture inout_observation > 0 \<or> sensedData inout_observation = []"
  let ?ra = "(max_ray_len_of h g (maxSensorDistance inout_observation), 1 - threshold,
              rangeNoiseStd, angleNoiseStd)"
  have "\<exists>data k'. sonar_loop h g gauss robotPose ?ra (sensorConeApperture inout_observation)
                     (sensedData inout_observation) k = Inr (data, k')"
  proof (cases "sensorConeApperture inout_observation > 0")
    case True
    then show ?thesis by (rule sonar_loop_passes)
  next
    case False
    with a show ?thesis by simp
  qed
  then show "\<exists>out k'. sonarSimulator h g gauss k inout_observation robotPose threshold rangeNoiseStd
                angleNoiseStd = Inr (out, k')"
    by (auto simp: sonarSimulator_def Let_def)
qed

theorem simulators_argument_checks_witness:
  "(\<exists>msg. laserScanSimulator plain_helpers strip_grid (\<lambda>i. 0) 0 scan_request edge_robot (1 / 2) 1 0 1 0
             = Some (Inl (ASSERT_failed msg)))
   \<and> (\<exists>msg. laserScanSimulator plain_helpers strip_grid (\<lambda>i. 0) 0 scan_request edge_robot (1 / 2) 2 0 0 0
             = Some (Inl (ASSERT_failed msg)))
   \<and> (\<exists>out k'. laserScanSimulator plain_helpers strip_grid (\<lambda>i. 0) 0 scan_request edge_robot (1 / 2) 2 0 1 0
             = Some (Inr (out, k')))
   \<and> (\<exists>msg. sonarSimulator plain_helpers strip_grid (\<lambda>i. 0) 0 (sonar_request 0 (one_transducer 7))
               edge_robot (1 / 2) 0 0 = Inl (ASSERT_failed msg))
   \<and> (\<exists>out k'. sonarSimulator plain_helpers strip_grid (\<lambda>i. 0) 0
               (sonar_request (pi / 180) (one_transducer 7)) edge_robot (1 / 2) 0 0 = Inr (out, k'))"
  using simulators_argument_checks
          [where N = 1 and decimation = 1 and h = plain_helpers and g = strip_grid and gauss = "\<lambda>i. 0"
             and k = 0 and inout_Scan = scan_request and robotPose = edge_robot and threshold = "1 / 2"
             and noiseStd = 0 and angleNoiseStd = 0
             and inout_observation = "sonar_request 0 (one_transducer 7)" and rangeNoiseStd = 0]
        simulators_argument_checks
          [where N = 2 and decimation = 0 and h = plain_helpers and g = strip_grid and gauss = "\<lambda>i. 0"
             and k = 0 and inout_Scan = scan_request and robotPose = edge_robot and threshold = "1 / 2"
             and noiseStd = 0 and angleNoiseStd = 0
             and inout_observation = "sonar_request (pi / 180) (one_transducer 7)" and rangeNoiseStd = 0]
        simulators_argument_checks
          [where N = 2 and decimation = 1 and h = plain_helpers and g = strip_grid and gauss = "\<lambda>i. 0"
             and k = 0 and inout_Scan = scan_request and robotPose = edge_robot and threshold = "1 / 2"
             and noiseStd = 0 and angleNoiseStd = 0
             and inout_observation = "sonar_request (pi / 180) (one_transducer 7)" and rangeNoiseStd = 0]
  by (simp add: sonar_request_def one_transducer_def)

text \<open>The claim as stated fails for an observation without transducers: the loop body,
  and with it the assertion, is never reached, and \<^verbatim>\<open>sonarSimulator\<close> returns normally
  with a cone aperture of 0.\<close>

theorem sonarSimulator_no_transducer_counterexample:
  "\<not> sensorConeApperture (sonar_request 0 []) > 0
   \<and> sonarSimulator plain_helpers strip_grid (\<lambda>i. 0) 0 (sonar_request 0 []) edge_robot (1 / 2) 0 0
       = Inr (sonar_request 0 [], 0)"
  by (simp add: sonarSimulator_def sonar_request_def Let_def)

lemmas grid_defs = in_grid_def cell_at_def cast_int_def cast_unsigned_def

text \<open>One evaluation of the loop condition, by its outcome.\<close>

lemma ray_march_continue:
  assumes "in_grid g (x2idx g (rx s)) (y2idx g (ry s))"
    and "thr < cell_at g (x2idx g (rx s)) (y2idx g (ry s))"
    and "ray_len s < m"
  shows "ray_march g Arx Ary thr m s
       = ray_march g Arx Ary thr m
           (s\<lparr>x_idx := x2idx g (rx s), y_idx := y2idx g (ry s),
              hitCellOcc_int := cell_at g (x2idx g (rx s)) (y2idx g (ry s)),
              firstUnknownCellDist :=
                (if \<bar>cell_at g (x2idx g (rx s)) (y2idx g (ry s))\<bar> \<le> 1
                 then min (firstUnknownCellDist s) (ray_len s) else firstUnknownCellDist s),
              rx := rx s + Arx, ry := ry s + Ary, ray_len := ray_len s + 1\<rparr>)"
  using assms by (subst ray_march.simps) (simp add: Let_def in_grid_def)

lemma ray_march_stop:
  assumes "in_grid g (x2idx g (rx s)) (y2idx g (ry s))"
    and "\<not> (thr < cell_at g (x2idx g (rx s)) (y2idx g (ry s)) \<and> ray_len s < m)"
  shows "ray_march g Arx Ary thr m s
       = s\<lparr>x_idx := x2idx g (rx s), y_idx := y2idx g (ry s),
            hitCellOcc_int := cell_at g (x2idx g (rx s)) (y2idx g (ry s))\<rparr>"
  using assms by (subst ray_march.simps) (auto simp: Let_def in_grid_def)

lemma ray_march_leave:
  assumes "\<not> in_grid g (x2idx g (rx s)) (y2idx g (ry s))"
  shows "ray_march g Arx Ary thr m s
       = (if x2idx g (rx s) \<ge> 0 then s\<lparr>x_idx := x2idx g (rx s), y_idx := y2idx g (ry s)\<rparr>
          else s\<lparr>x_idx := x2idx g (rx s)\<rparr>)"
  using assms by (subst ray_march.simps) (auto simp: Let_def in_grid_def)

lemma wall_ray_along_strip:
  "simulateScanRay wall_grid gauss k (1 / 2) 0 0 3 (1 / 2) 0 0 = (2, True, k)"
proof -
  let ?s0 = "\<lparr>rx = 1 / 2, ry = 0, ray_len = 0, firstUnknownCellDist = 4,
             hitCellOcc_int = 0, x_idx = 0, y_idx = 0\<rparr>"
  let ?s1 = "\<lparr>rx = 3 / 2, ry = 0, ray_len = 1, firstUnknownCellDist = 4,
             hitCellOcc_int = 10, x_idx = 0, y_idx = 0\<rparr>"
  let ?s2 = "\<lparr>rx = 5 / 2, ry = 0, ray_len = 2, firstUnknownCellDist = 4,
             hitCellOcc_int = 10, x_idx = 1, y_idx = 0\<rparr>"
  have a: "ray_march wall_grid 1 0 0 3 ?s0 = ray_march wall_grid 1 0 0 3 ?s1"
    by (subst ray_march_continue) (simp_all add: wall_grid_def grid_defs)
  have b: "ray_march wall_grid 1 0 0 3 ?s1 = ray_march wall_grid 1 0 0 3 ?s2"
    by (subst ray_march_continue) (simp_all add: wall_grid_def grid_defs numeral_2_eq_2 [symmetric])
  have c: "ray_march wall_grid 1 0 0 3 ?s2 = ?s2\<lparr>x_idx := 2, hitCellOcc_int := - 10\<rparr>"
    by (subst ray_march_stop) (simp_all add: wall_grid_def grid_defs)
  have "ray_trace wall_grid (1 / 2) 0 0 3 (1 / 2) = ?s2\<lparr>x_idx := 2, hitCellOcc_int := - 10\<rparr>"
    using a b c by (simp add: ray_trace_def ray_init_def wall_grid_def)
  then show ?thesis
    by (simp add: simulateScanRay_def perturbed_angle_def wall_grid_def cast_unsigned_def)
qed

text \<open>A ray that points below the strip, however slightly, leaves the grid with its first
  step: one step, not valid.\<close>

lemma wall_ray_leaving:
  assumes "sin a < 0" and "0 < cos a"
  shows "simulateScanRay wall_grid gauss k (1 / 2) 0 a 3 (1 / 2) 0 0 = (1, False, k)"
proof -
  have "- 1 \<le> sin a" by simp
  with assms(1) have fy: "\<lfloor>sin a\<rfloor> = - 1" by linarith
  have "cos a \<le> 1" by simp
  with assms(2) have fx: "0 \<le> \<lfloor>1 / 2 + cos a\<rfloor>" by linarith
  let ?s1 = "\<lparr>rx = 1 / 2 + cos a, ry = sin a, ray_len = 1, firstUnknownCellDist = 4,
             hitCellOcc_int = 10, x_idx = 0, y_idx = 0\<rparr>"
  have first: "ray_march wall_grid (cos a) (sin a) 0 3
                 \<lparr>rx = 1 / 2, ry = 0, ray_len = 0, firstUnknownCellDist = 4,
                  hitCellOcc_int = 0, x_idx = 0, y_idx = 0\<rparr>
               = ray_march wall_grid (cos a) (sin a) 0 3 ?s1"
    by (subst ray_march_continue) (simp_all add: wall_grid_def grid_defs)
  have second: "ray_march wall_grid (cos a) (sin a) 0 3 ?s1
                = ?s1\<lparr>x_idx := \<lfloor>1 / 2 + cos a\<rfloor>, y_idx := - 1\<rparr>"
    using fx by (subst ray_march_leave) (simp_all add: wall_grid_def grid_defs fy)
  have "ray_trace wall_grid (1 / 2) 0 a 3 (1 / 2) = ?s1\<lparr>x_idx := \<lfloor>1 / 2 + cos a\<rfloor>, y_idx := - 1\<rparr>"
    using first second by (simp add: ray_trace_def ray_init_def wall_grid_def)
  then show ?thesis
    by (simp add: simulateScanRay_def perturbed_angle_def wall_grid_def cast_unsigned_def)
qed

lemma one_degree_rays:
  "sin (- (pi / 360)) < 0" "0 < cos (- (pi / 360))"
proof -
  have "0 < pi / 360" "pi / 360 < pi" "pi / 360 < pi / 2" by simp_all
  then have "0 < sin (pi / 360)" "0 < cos (pi / 360)"
    by (simp_all add: sin_gt_zero cos_gt_zero)
  then show "sin (- (pi / 360)) < 0" "0 < cos (- (pi / 360))" by simp_all
qed

text \<open>
  Claim C3 (a defect of the code). The robot stands on the lower edge of the strip and
  its sonar fans two rays: the first points below the strip and comes back invalid, the
  second runs along the strip and comes back valid with the range 2. The minimum over
  the valid rays is 2, yet \<^verbatim>\<open>sonarSimulator\<close> records the distance 0: the test
  \<^verbatim>\<open>sim_rang<min_detected_obs || !i\<close> lets a valid ray replace the initial 0 only if it is
  the first ray of the cone.
\<close>

theorem sonarSimulator_ignores_valid_ray_after_invalid_first:
  "simulateScanRay wall_grid (\<lambda>i. 0) 0 (pose_x edge_robot) (pose_y edge_robot) (- (pi / 360)) 3 (1 / 2) 0 0
     = (1, False, 0)
   \<and> simulateScanRay wall_grid (\<lambda>i. 0) 0 (pose_x edge_robot) (pose_y edge_robot) 0 3 (1 / 2) 0 0
     = (2, True, 0)
   \<and> sonarSimulator plain_helpers wall_grid (\<lambda>i. 0) 0 (sonar_request (pi / 180) (one_transducer 7))
        edge_robot (1 / 2) 0 0
     = Inr (sonar_request (pi / 180) (one_transducer 0), 0)"
proof -
  have r0: "simulateScanRay wall_grid (\<lambda>i. 0) 0 (1 / 2) 0 (- (pi / 360)) 3 (1 / 2) 0 0 = (1, False, 0)"
    by (rule wall_ray_leaving [OF one_degree_rays])
  have r1: "simulateScanRay wall_grid (\<lambda>i. 0) 0 (1 / 2) 0 0 3 (1 / 2) 0 0 = (2, True, 0)"
    by (rule wall_ray_along_strip)
  have rays: "sonar_rays wall_grid (\<lambda>i. 0) edge_robot (3, 1 / 2, 0, 0) 2 (pi / 360) 0 (- (pi / 360)) 0 0
              = (0, 0)"
    by (simp add: sonar_rays.simps edge_robot_def r0 r1)
  have phi: "pose_phi edge_robot = 0"
    by (simp add: edge_robot_def)
  have n: "nat (round (1 + pi / 180 / (pi / 180))) = 2"
    by simp
  have m: "max_ray_len_of plain_helpers wall_grid 3 = 3"
    by (simp add: max_ray_len_of_def plain_helpers_def wall_grid_def cast_unsigned_def)
  have "sonarSimulator plain_helpers wall_grid (\<lambda>i. 0) 0 (sonar_request (pi / 180) (one_transducer 7))
        edge_robot (1 / 2) 0 0
     = Inr (sonar_request (pi / 180) (one_transducer 0), 0)"
    unfolding sonarSimulator_def sonar_request_def one_transducer_def
    by (simp add: m [unfolded plain_helpers_def] phi sonar_cone_def plain_helpers_def n rays Let_def)
  with r0 r1 show ?thesis by (simp add: edge_robot_def)
qed

section \<open>Theorems about the edge registration decider\<close>

subsection \<open>The effect of the pairwise ICP loops\<close>

lemma edge_count_increment:
  "edge_count (increment k m) k' = (if k' = k then edge_count m k + 1 else edge_count m k')"
  by (simp add: edge_count_def increment_def)

lemma nodeCount_registerNewEdge: "nodeCount (registerNewEdge a b c g) = nodeCount g"
  by (simp add: nodeCount_def registerNewEdge_def insertEdge_def)

lemma registration_effect_nothing: "registration_effect params label [] dg dg"
  by (simp add: registration_effect_def)

text \<open>Registering one edge and then the edges \<open>acc\<close> is registering \<open>e # acc\<close>.\<close>

lemma registration_effect_step:
  assumes "label \<noteq> ''LC''"
    and "d2 = (if id_gap_exceeds params e
               then d\<lparr>m_edge_types_to_nums := increment ''LC'' (increment label (m_edge_types_to_nums d)),
                      m_just_inserted_loop_closure := True\<rparr>
               else d\<lparr>m_edge_types_to_nums := increment label (m_edge_types_to_nums d)\<rparr>)"
    and "g1 = g\<lparr>edges := edges g @ [e]\<rparr>"
    and "registration_effect params label acc (d2, g1) dg'"
  shows "registration_effect params label (e # acc) (d, g) dg'"
proof (cases "id_gap_exceeds params e")
  case True
  with assms show ?thesis
    by (simp add: registration_effect_def unregistered_part_def edge_count_increment)
next
  case False
  with assms show ?thesis
    by (simp add: registration_effect_def unregistered_part_def edge_count_increment)
qed

lemma icp_loop2D_effect:
  "m_nodes_to_laser_scans2D d (nodeCount g - 1) = Some cscan \<Longrightarrow>
   registration_effect params ''ICP2D''
     (List.map_filter
        (accepted_edge (getICPEdge2D env) params (m_nodes_to_laser_scans2D d) (nodeCount g - 1)) cands)
     (d, g) (icp_loop2D env params cscan cands (d, g))"
proof (induction cands arbitrary: d g)
  case Nil
  show ?case by (simp add: registration_effect_nothing)
next
  case (Cons node rest)
  let ?reg = "m_nodes_to_laser_scans2D d"
  let ?n1 = "nodeCount g - 1"
  let ?acc = "accepted_edge (getICPEdge2D env) params ?reg ?n1"
  show ?case
  proof (cases "?acc node")
    case None
    then have "icp_loop2D env params cscan (node # rest) (d, g) = icp_loop2D env params cscan rest (d, g)"
      using Cons.prems
      by (auto simp: accepted_edge_def case_prod_beta split: option.splits if_splits)
    with Cons.IH [OF Cons.prems] None show ?thesis
      by simp
  next
    case (Some e)
    then obtain prev where prev: "?reg node = Some prev"
      and good: "snd (getICPEdge2D env prev cscan) > ICP_goodness_thresh params"
      and e: "e = (node, ?n1, fst (getICPEdge2D env prev cscan))"
      using Cons.prems
      by (auto simp: accepted_edge_def split: option.splits if_splits)
    define g1 where "g1 = g\<lparr>edges := edges g @ [e]\<rparr>"
    define d2 where "d2 = (if id_gap_exceeds params e
               then d\<lparr>m_edge_types_to_nums := increment ''LC'' (increment ''ICP2D'' (m_edge_types_to_nums d)),
                      m_just_inserted_loop_closure := True\<rparr>
               else d\<lparr>m_edge_types_to_nums := increment ''ICP2D'' (m_edge_types_to_nums d)\<rparr>)"
    have n2: "nodeCount g1 = nodeCount g" by (simp add: g1_def nodeCount_def)
    have reg2: "m_nodes_to_laser_scans2D d2 = ?reg" by (simp add: d2_def)
    have step: "icp_loop2D env params cscan (node # rest) (d, g) = icp_loop2D env params cscan rest (d2, g1)"
      using prev good e
      by (simp add: id_gap_exceeds_def Let_def case_prod_beta d2_def g1_def
            registerNewEdge_def insertEdge_def nodeCount_def)
    have "m_nodes_to_laser_scans2D d2 (nodeCount g1 - 1) = Some cscan"
      using Cons.prems by (simp add: reg2 n2)
    from Cons.IH [OF this]
    have rest: "registration_effect params ''ICP2D'' (List.map_filter ?acc rest) (d2, g1)
            (icp_loop2D env params cscan rest (d2, g1))"
      by (simp only: reg2 n2)
    have mf: "List.map_filter ?acc (node # rest) = e # List.map_filter ?acc rest"
      using Some by simp
    show ?thesis
      unfolding step mf by (rule registration_effect_step [OF _ d2_def g1_def rest]) simp
  qed
qed

lemma icp_loop3D_effect:
  "m_nodes_to_laser_scans3D d (nodeCount g - 1) = Some cscan \<Longrightarrow>
   registration_effect params ''ICP3D''
     (List.map_filter
        (accepted_edge (getICPEdge3D env) params (m_nodes_to_laser_scans3D d) (nodeCount g - 1)) cands)
     (d, g) (icp_loop3D env params cscan cands (d, g))"
proof (induction cands arbitrary: d g)
  case Nil
  show ?case by (simp add: registration_effect_nothing)
next
  case (Cons node rest)
  let ?reg = "m_nodes_to_laser_scans3D d"
  let ?n1 = "nodeCount g - 1"
  let ?acc = "accepted_edge (getICPEdge3D env) params ?reg ?n1"
  show ?case
  proof (cases "?acc node")
    case None
    then have "icp_loop3D env params cscan (node # rest) (d, g) = icp_loop3D env params cscan rest (d, g)"
      using Cons.prems
      by (auto simp: accepted_edge_def case_prod_beta split: option.splits if_splits)
    with Cons.IH [OF Cons.prems] None show ?thesis
      by simp
  next
    case (Some e)
    then obtain prev where prev: "?reg node = Some prev"
      and good: "snd (getICPEdge3D env prev cscan) > ICP_goodness_thresh params"
      and e: "e = (node, ?n1, fst (getICPEdge3D env prev cscan))"
      using Cons.prems
      by (auto simp: accepted_edge_def split: option.splits if_splits)
    define g1 where "g1 = g\<lparr>edges := edges g @ [e]\<rparr>"
    define d2 where "d2 = (if id_gap_exceeds params e
               then d\<lparr>m_edge_types_to_nums := increment ''LC'' (increment ''ICP3D'' (m_edge_types_to_nums d)),
                      m_just_inserted_loop_closure := True\<rparr>
               else d\<lparr>m_edge_types_to_nums := increment ''ICP3D'' (m_edge_types_to_nums d)\<rparr>)"
    have n2: "nodeCount g1 = nodeCount g" by (simp add: g1_def nodeCount_def)
    have reg2: "m_nodes_to_laser_scans3D d2 = ?reg" by (simp add: d2_def)
    have step: "icp_loop3D env params cscan (node # rest) (d, g) = icp_loop3D env params cscan rest (d2, g1)"
      using prev good e
      by (simp add: id_gap_exceeds_def Let_def case_prod_beta d2_def g1_def
            registerNewEdge_def insertEdge_def nodeCount_def)
    have "m_nodes_to_laser_scans3D d2 (nodeCount g1 - 1) = Some cscan"
      using Cons.prems by (simp add: reg2 n2)
    from Cons.IH [OF this]
    have rest: "registration_effect params ''ICP3D'' (List.map_filter ?acc rest) (d2, g1)
            (icp_loop3D env params cscan rest (d2, g1))"
      by (simp only: reg2 n2)
    have mf: "List.map_filter ?acc (node # rest) = e # List.map_filter ?acc rest"
      using Some by simp
    show ?thesis
      unfolding step mf by (rule registration_effect_step [OF _ d2_def g1_def rest]) simp
  qed
qed

lemma map_filter_accepted_no_current:
  "registry new_id = None \<Longrightarrow> List.map_filter (accepted_edge icp params registry new_id) cands = []"
  by (induction cands) (simp_all add: accepted_edge_def split: option.splits)

lemma checkRegistrationCondition2D_effect:
  "registration_effect params ''ICP2D''
     (List.map_filter
        (accepted_edge (getICPEdge2D env) params (m_nodes_to_laser_scans2D d) (nodeCount g - 1)) cands)
     (d, g) (checkRegistrationCondition2D env params cands (d, g))"
proof (cases "m_nodes_to_laser_scans2D d (nodeCount g - 1)")
  case None
  then show ?thesis
    by (simp add: checkRegistrationCondition2D_def map_filter_accepted_no_current
          registration_effect_nothing)
next
  case (Some cscan)
  from icp_loop2D_effect [OF Some] Some show ?thesis
    by (simp add: checkRegistrationCondition2D_def)
qed

lemma checkRegistrationCondition3D_effect:
  "registration_effect params ''ICP3D''
     (List.map_filter
        (accepted_edge (getICPEdge3D env) params (m_nodes_to_laser_scans3D d) (nodeCount g - 1)) cands)
     (d, g) (checkRegistrationCondition3D env params cands (d, g))"
proof (cases "m_nodes_to_laser_scans3D d (nodeCount g - 1)")
  case None
  then show ?thesis
    by (simp add: checkRegistrationCondition3D_def map_filter_accepted_no_current
          registration_effect_nothing)
next
  case (Some cscan)
  from icp_loop3D_effect [OF Some] Some show ?thesis
    by (simp add: checkRegistrationCondition3D_def)
qed

lemma register_edges_effect:
  "registration_effect params (if m_is_using_3DScan d then ''ICP3D'' else ''ICP2D'')
     (registered_edges env params d g)
     (d\<lparr>m_just_inserted_loop_closure := False\<rparr>, g) (register_edges env params (d, g))"
proof (cases "m_is_using_3DScan d")
  case True
  from checkRegistrationCondition3D_effect
         [of params env "d\<lparr>m_just_inserted_loop_closure := False\<rparr>" g] True
  show ?thesis by (simp add: register_edges_def registered_edges_def Let_def)
next
  case False
  from checkRegistrationCondition2D_effect
         [of params env "d\<lparr>m_just_inserted_loop_closure := False\<rparr>" g] False
  show ?thesis by (simp add: register_edges_def registered_edges_def Let_def)
qed

lemma unregistered_part_fields:
  assumes "unregistered_part d' = unregistered_part d"
  shows "m_is_using_3DScan d' = m_is_using_3DScan d"
    and "m_last_total_num_of_nodes d' = m_last_total_num_of_nodes d"
    and "m_nodes_to_laser_scans2D d' = m_nodes_to_laser_scans2D d"
    and "m_nodes_to_laser_scans3D d' = m_nodes_to_laser_scans3D d"
    and "m_checked_for_usuable_dataset d' = m_checked_for_usuable_dataset d"
proof -
  have "m_is_using_3DScan (unregistered_part d') = m_is_using_3DScan (unregistered_part d)"
    "m_last_total_num_of_nodes (unregistered_part d') = m_last_total_num_of_nodes (unregistered_part d)"
    "m_nodes_to_laser_scans2D (unregistered_part d') = m_nodes_to_laser_scans2D (unregistered_part d)"
    "m_nodes_to_laser_scans3D (unregistered_part d') = m_nodes_to_laser_scans3D (unregistered_part d)"
    "m_checked_for_usuable_dataset (unregistered_part d') = m_checked_for_usuable_dataset (unregistered_part d)"
    using assms by simp_all
  then show "m_is_using_3DScan d' = m_is_using_3DScan d"
    and "m_last_total_num_of_nodes d' = m_last_total_num_of_nodes d"
    and "m_nodes_to_laser_scans2D d' = m_nodes_to_laser_scans2D d"
    and "m_nodes_to_laser_scans3D d' = m_nodes_to_laser_scans3D d"
    and "m_checked_for_usuable_dataset d' = m_checked_for_usuable_dataset d"
    by (simp_all add: unregistered_part_def)
qed

lemma ingest_frame_condition:
  "m_edge_types_to_nums (ingest env observations observation r g d) = m_edge_types_to_nums d
   \<and> m_just_inserted_loop_closure (ingest env observations observation r g d)
       = m_just_inserted_loop_closure d
   \<and> m_last_total_num_of_nodes (ingest env observations observation r g d)
       = m_last_total_num_of_nodes d"
  by (simp add: ingest_def ingest_observation_def ingest_frame_def Let_def
        split: option.splits observation.splits)

lemma ingest_mode:
  "m_is_using_3DScan (ingest env observations observation r g d)
     = (case observation of
          Some (Observation2DRangeScan s) \<Rightarrow> False
        | Some (Observation3DRangeScan s) \<Rightarrow> True
        | _ \<Rightarrow> m_is_using_3DScan d)"
  by (simp add: ingest_def ingest_observation_def ingest_frame_def Let_def
        split: option.splits observation.splits)

lemma checkIfInvalidDataset_frame:
  "m_edge_types_to_nums (checkIfInvalidDataset observation d) = m_edge_types_to_nums d
   \<and> m_just_inserted_loop_closure (checkIfInvalidDataset observation d)
       = m_just_inserted_loop_closure d
   \<and> m_last_total_num_of_nodes (checkIfInvalidDataset observation d)
       = m_last_total_num_of_nodes d
   \<and> m_is_using_3DScan (checkIfInvalidDataset observation d) = m_is_using_3DScan d
   \<and> m_nodes_to_laser_scans2D (checkIfInvalidDataset observation d) = m_nodes_to_laser_scans2D d
   \<and> m_nodes_to_laser_scans3D (checkIfInvalidDataset observation d) = m_nodes_to_laser_scans3D d"
  by (simp add: checkIfInvalidDataset_def Let_def split: option.splits observation.splits)

text \<open>The state in which the edge registration of a step starts: the node count is
  recorded (when a node was registered) and the step's scan is ingested.\<close>

lemma update_new_node_effect:
  fixes env params observations observation d g
  assumes new: "m_last_total_num_of_nodes d < nodeCount g"
  defines "d2 \<equiv> ingest env observations observation True g (d\<lparr>m_last_total_num_of_nodes := nodeCount g\<rparr>)"
  defines "res \<equiv> updateDeciderState env params observations observation (d, g)"
  defines "acc \<equiv> registered_edges env params d2 g"
  shows "snd res = g\<lparr>edges := edges g @ acc\<rparr>
    \<and> (\<forall>l. edge_count (m_edge_types_to_nums (fst res)) l
           = edge_count (m_edge_types_to_nums d) l
             + (if l = (if m_is_using_3DScan d2 then ''ICP3D'' else ''ICP2D'') then int (length acc) else 0)
             + (if l = ''LC'' then int (length (filter (id_gap_exceeds params) acc)) else 0))
    \<and> m_just_inserted_loop_closure (fst res) = (\<exists>e \<in> set acc. id_gap_exceeds params e)
    \<and> m_is_using_3DScan (fst res) = m_is_using_3DScan d2
    \<and> m_nodes_to_laser_scans2D (fst res) = m_nodes_to_laser_scans2D d2
    \<and> m_nodes_to_laser_scans3D (fst res) = m_nodes_to_laser_scans3D d2
    \<and> m_last_total_num_of_nodes (fst res) = nodeCount g"
proof -
  define dg3 where "dg3 = register_edges env params (d2, g)"
  have res: "res = (if \<not> m_checked_for_usuable_dataset (fst dg3)
                    then checkIfInvalidDataset observation (fst dg3) else fst dg3, snd dg3)"
    using new by (simp add: res_def updateDeciderState_def detect_new_node_def Let_def dg3_def d2_def)
  have eff: "registration_effect params (if m_is_using_3DScan d2 then ''ICP3D'' else ''ICP2D'') acc
               (d2\<lparr>m_just_inserted_loop_closure := False\<rparr>, g) dg3"
    unfolding dg3_def acc_def by (rule register_edges_effect)
  have d2: "m_edge_types_to_nums d2 = m_edge_types_to_nums d" "m_last_total_num_of_nodes d2 = nodeCount g"
    using ingest_frame_condition [of env observations observation True g
            "d\<lparr>m_last_total_num_of_nodes := nodeCount g\<rparr>"]
    by (simp_all add: d2_def)
  from eff have un: "unregistered_part (fst dg3) = unregistered_part (d2\<lparr>m_just_inserted_loop_closure := False\<rparr>)"
    by (simp add: registration_effect_def)
  note f = unregistered_part_fields [OF un]
  from eff d2 f show ?thesis
    by (simp add: res registration_effect_def checkIfInvalidDataset_frame)
qed

lemma update_no_new_node_effect:
  fixes env params observations observation d g
  assumes "\<not> m_last_total_num_of_nodes d < nodeCount g"
  defines "res \<equiv> updateDeciderState env params observations observation (d, g)"
  shows "snd res = g
    \<and> m_edge_types_to_nums (fst res) = m_edge_types_to_nums d
    \<and> m_just_inserted_loop_closure (fst res) = m_just_inserted_loop_closure d
    \<and> m_is_using_3DScan (fst res) = m_is_using_3DScan (ingest env observations observation False g d)
    \<and> m_last_total_num_of_nodes (fst res) = m_last_total_num_of_nodes d"
  using assms(1) ingest_frame_condition [of env observations observation False g d]
  by (simp add: res_def updateDeciderState_def detect_new_node_def Let_def checkIfInvalidDataset_frame)

subsection \<open>Candidate selection\<close>

lemma set_insert_append: "\<forall>w \<in> set ws. w < v \<Longrightarrow> set_insert v ws = ws @ [v]"
  by (induction ws) auto

lemma nearby_loop_filter:
  "\<forall>w \<in> set ns. w < i \<Longrightarrow>
   nearby_loop env g cur dmax i ns
     = ns @ filter (\<lambda>j. distanceTo env (nodes g ! j) (nodes g ! cur) \<le> dmax) [i..<nodeCount g - 1]"
proof (induction env g cur dmax i ns rule: nearby_loop.induct)
  case (1 env g cur dmax i ns)
  show ?case
  proof (cases "i < nodeCount g - 1")
    case False
    then show ?thesis by (subst nearby_loop.simps) simp
  next
    case True
    let ?ns' = "if distanceTo env (nodes g ! i) (nodes g ! cur) \<le> dmax then set_insert i ns else ns"
    have ns': "?ns' = ns @ filter (\<lambda>j. distanceTo env (nodes g ! j) (nodes g ! cur) \<le> dmax) [i]"
      using "1.prems" by (simp add: set_insert_append)
    then have "\<forall>w \<in> set ?ns'. w < i + 1" using "1.prems" by (auto simp: less_Suc_eq)
    from "1.IH" [OF True refl this]
    have "nearby_loop env g cur dmax (i + 1) ?ns'
            = ?ns' @ filter (\<lambda>j. distanceTo env (nodes g ! j) (nodes g ! cur) \<le> dmax) [i + 1..<nodeCount g - 1]" .
    moreover have "nearby_loop env g cur dmax i ns = nearby_loop env g cur dmax (i + 1) ?ns'"
      using True by (subst nearby_loop.simps) (simp add: Let_def)
    moreover have "[i..<nodeCount g - 1] = i # [i + 1..<nodeCount g - 1]"
      using True by (simp add: upt_conv_Cons)
    ultimately show ?thesis by (simp add: ns')
  qed
qed

text \<open>With a positive distance the candidates are prior nodes only.\<close>

lemma getNearbyNodesOf_positive:
  "distance > 0 \<Longrightarrow>
   getNearbyNodesOf env g [] cur distance
     = filter (\<lambda>j. distanceTo env (nodes g ! j) (nodes g ! cur) \<le> distance) [0..<nodeCount g - 1]"
  by (simp add: getNearbyNodesOf_def nearby_loop_filter)

lemma getNearbyNodesOf_nonpositive:
  "\<not> distance > 0 \<Longrightarrow> getNearbyNodesOf env g ns cur distance = [0..<nodeCount g]"
  by (simp add: getNearbyNodesOf_def getAllNodes_def)

subsection \<open>The concrete sessions\<close>

lemmas session_defs = updateDeciderState_def detect_new_node_def ingest_def ingest_observation_def
  ingest_frame_def register_edges_def checkIfInvalidDataset_def getNearbyNodesOf_def
  checkRegistrationCondition2D_def checkRegistrationCondition3D_def registerNewEdge_def insertEdge_def
  nodeCount_def line_graph_def line_env_def gap1_params_def default_params_def all_nodes_params_def
  fresh_decider_def initCICPGoodnessERD_t_def increment_def edge_count_def getAllNodes_def
  m_consecutive_invalid_format_instances_thres_def Let_def nearby_loop.simps

lemma session2D_1_state:
  "session2D_1 =
     (\<lparr>m_just_inserted_loop_closure = False, m_is_using_3DScan = False,
       m_last_total_num_of_nodes = 3,
       m_edge_types_to_nums = [''ICP2D'' \<mapsto> 0, ''ICP3D'' \<mapsto> 0, ''LC'' \<mapsto> 0],
       m_last_laser_scan2D = Some 100, m_last_laser_scan3D = None,
       m_fake_laser_scan2D = None, m_nodes_to_laser_scans2D = [2 \<mapsto> 100],
       m_nodes_to_laser_scans3D = Map.empty,
       m_checked_for_usuable_dataset = True,
       m_consecutive_invalid_format_instances = 0\<rparr>,
      line_graph 3 [])"
  unfolding session2D_1_def by (simp add: session_defs)

lemma session2D_2_state:
  "session2D_2 =
     (\<lparr>m_just_inserted_loop_closure = False, m_is_using_3DScan = False,
       m_last_total_num_of_nodes = 4,
       m_edge_types_to_nums = [''ICP3D'' \<mapsto> 0, ''LC'' \<mapsto> 0, ''ICP2D'' \<mapsto> 1],
       m_last_laser_scan2D = Some 101, m_last_laser_scan3D = None,
       m_fake_laser_scan2D = None, m_nodes_to_laser_scans2D = [2 \<mapsto> 100, 3 \<mapsto> 101],
       m_nodes_to_laser_scans3D = Map.empty,
       m_checked_for_usuable_dataset = True,
       m_consecutive_invalid_format_instances = 0\<rparr>,
      line_graph 4 [(2, 3, ())])"
  unfolding session2D_2_def session2D_1_state by (simp add: session_defs)

lemma session2D_3_state:
  "session2D_3 =
     (\<lparr>m_just_inserted_loop_closure = True, m_is_using_3DScan = False,
       m_last_total_num_of_nodes = 5,
       m_edge_types_to_nums = [''ICP3D'' \<mapsto> 0, ''LC'' \<mapsto> 1, ''ICP2D'' \<mapsto> 3],
       m_last_laser_scan2D = Some 102, m_last_laser_scan3D = None,
       m_fake_laser_scan2D = None,
       m_nodes_to_laser_scans2D = [2 \<mapsto> 100, 3 \<mapsto> 101, 4 \<mapsto> 102],
       m_nodes_to_laser_scans3D = Map.empty,
       m_checked_for_usuable_dataset = True,
       m_consecutive_invalid_format_instances = 0\<rparr>,
      line_graph 5 [(2, 3, ()), (2, 4, ()), (3, 4, ())])"
  unfolding session2D_3_def session2D_2_state by (simp add: session_defs)

lemma session2D_4_state:
  "session2D_4 =
     (\<lparr>m_just_inserted_loop_closure = True, m_is_using_3DScan = False,
       m_last_total_num_of_nodes = 5,
       m_edge_types_to_nums = [''ICP3D'' \<mapsto> 0, ''LC'' \<mapsto> 1, ''ICP2D'' \<mapsto> 3],
       m_last_laser_scan2D = Some 103, m_last_laser_scan3D = None,
       m_fake_laser_scan2D = None,
       m_nodes_to_laser_scans2D = [2 \<mapsto> 100, 3 \<mapsto> 101, 4 \<mapsto> 102],
       m_nodes_to_laser_scans3D = Map.empty,
       m_checked_for_usuable_dataset = True,
       m_consecutive_invalid_format_instances = 0\<rparr>,
      line_graph 5 [(2, 3, ()), (2, 4, ()), (3, 4, ())])"
  unfolding session2D_4_def session2D_3_state by (simp add: session_defs)

lemma session3D_1_state:
  "session3D_1 =
     (\<lparr>m_just_inserted_loop_closure = False, m_is_using_3DScan = True,
       m_last_total_num_of_nodes = 3,
       m_edge_types_to_nums = [''ICP2D'' \<mapsto> 0, ''ICP3D'' \<mapsto> 0, ''LC'' \<mapsto> 0],
       m_last_laser_scan2D = None, m_last_laser_scan3D = Some 300,
       m_fake_laser_scan2D = None, m_nodes_to_laser_scans2D = Map.empty,
       m_nodes_to_laser_scans3D = [2 \<mapsto> 300],
       m_checked_for_usuable_dataset = True,
       m_consecutive_invalid_format_instances = 0\<rparr>,
      line_graph 3 [])"
  unfolding session3D_1_def by (simp add: session_defs)

lemma session3D_2_state:
  "session3D_2 =
     (\<lparr>m_just_inserted_loop_closure = False, m_is_using_3DScan = False,
       m_last_total_num_of_nodes = 4,
       m_edge_types_to_nums = [''ICP2D'' \<mapsto> 0, ''ICP3D'' \<mapsto> 0, ''LC'' \<mapsto> 0],
       m_last_laser_scan2D = Some 201, m_last_laser_scan3D = Some 300,
       m_fake_laser_scan2D = None, m_nodes_to_laser_scans2D = [3 \<mapsto> 201],
       m_nodes_to_laser_scans3D = [2 \<mapsto> 300, 3 \<mapsto> 300],
       m_checked_for_usuable_dataset = True,
       m_consecutive_invalid_format_instances = 0\<rparr>,
      line_graph 4 [])"
  unfolding session3D_2_def session3D_1_state by (simp add: session_defs)

lemma session3D_3_state:
  "session3D_3 =
     (\<lparr>m_just_inserted_loop_closure = False, m_is_using_3DScan = False,
       m_last_total_num_of_nodes = 5,
       m_edge_types_to_nums = [''ICP3D'' \<mapsto> 0, ''LC'' \<mapsto> 0, ''ICP2D'' \<mapsto> 1],
       m_last_laser_scan2D = Some 202, m_last_laser_scan3D = Some 300,
       m_fake_laser_scan2D = None,
       m_nodes_to_laser_scans2D = [3 \<mapsto> 201, 4 \<mapsto> 202],
       m_nodes_to_laser_scans3D = [2 \<mapsto> 300, 3 \<mapsto> 300, 4 \<mapsto> 300],
       m_checked_for_usuable_dataset = True,
       m_consecutive_invalid_format_instances = 0\<rparr>,
      line_graph 5 [(3, 4, ())])"
  unfolding session3D_3_def session3D_2_state by (simp add: session_defs)

subsection \<open>Invariants of the counters and of the node count\<close>

lemma update_last_total:
  "m_last_total_num_of_nodes (fst (updateDeciderState env params observations observation (d, g)))
     = max (m_last_total_num_of_nodes d) (nodeCount g)"
proof (cases "m_last_total_num_of_nodes d < nodeCount g")
  case True
  from update_new_node_effect [OF True] True show ?thesis by (simp add: max_def)
next
  case False
  from update_no_new_node_effect [OF False] False show ?thesis by (simp add: max_def)
qed

lemma run_updates_last_total:
  "m_last_total_num_of_nodes d \<le> max 2 n \<Longrightarrow> \<forall>s \<in> set steps. nodeCount (fst s) \<le> n \<Longrightarrow>
   m_last_total_num_of_nodes (run_updates env params d steps) \<le> max 2 n"
proof (induction steps arbitrary: d)
  case Nil
  then show ?case by simp
next
  case (Cons s steps)
  obtain g observations observation where s: "s = (g, observations, observation)"
    by (cases s)
  let ?d' = "fst (updateDeciderState env params observations observation (d, g))"
  have "m_last_total_num_of_nodes ?d' \<le> max 2 n"
    using Cons.prems s by (auto simp: update_last_total max_def)
  from Cons.IH [OF this] Cons.prems(2) show ?case by (simp add: s)
qed

text \<open>
  Claim C5, amended. The constructor sets \<^verbatim>\<open>m_last_total_num_of_nodes\<close> to 2 whatever
  the graph holds, and a step only ever raises it to the node count it sees. So for a
  graph whose node count never decreases (the counts seen by the steps, then the count
  now, are in ascending order), after construction and after every step
  \<^verbatim>\<open>m_last_total_num_of_nodes\<close> is at most the larger of 2 and \<^verbatim>\<open>nodeCount()\<close>: it does
  not exceed \<^verbatim>\<open>nodeCount()\<close> once the graph has two nodes.
\<close>

theorem last_total_nodes_at_most_max_2_nodeCount:
  assumes "sorted (map nodeCount (map fst steps @ [g]))"
  shows "m_last_total_num_of_nodes (run_updates env params initCICPGoodnessERD_t steps)
           \<le> max 2 (nodeCount g)"
proof -
  from assms have "\<forall>s \<in> set steps. nodeCount (fst s) \<le> nodeCount g"
    by (auto simp: sorted_append)
  moreover have "m_last_total_num_of_nodes initCICPGoodnessERD_t \<le> max 2 (nodeCount g)"
    by (simp add: initCICPGoodnessERD_t_def)
  ultimately show ?thesis using run_updates_last_total by blast
qed

theorem last_total_nodes_at_most_max_2_nodeCount_witness:
  "sorted (map nodeCount (map fst [(line_graph 3 [], [], Some (Observation2DRangeScan (100::nat)))]
            @ [line_graph 4 []]))
   \<and> m_last_total_num_of_nodes
        (run_updates line_env default_params (initCICPGoodnessERD_t :: (nat, nat) decider)
           [(line_graph 3 [], [], Some (Observation2DRangeScan 100))]) \<le> 4"
  using last_total_nodes_at_most_max_2_nodeCount
          [of "[(line_graph 3 [], [], Some (Observation2DRangeScan (100::nat)))]" "line_graph 4 []"
              line_env default_params]
  by (simp add: nodeCount_def line_graph_def)

text \<open>The claim as stated fails while the graph has fewer than two nodes: with the one
  root node, \<^verbatim>\<open>m_last_total_num_of_nodes\<close> is 2 after construction and still 2 after a
  step.\<close>

theorem last_total_nodes_exceeds_nodeCount_counterexample:
  "\<not> m_last_total_num_of_nodes fresh_decider \<le> nodeCount (line_graph 1 [])
   \<and> \<not> m_last_total_num_of_nodes
          (run_updates line_env default_params fresh_decider
             [(line_graph 1 [], [], Some (Observation2DRangeScan 100))])
        \<le> nodeCount (line_graph 1 [])"
  by (simp add: update_last_total nodeCount_def line_graph_def fresh_decider_def
        initCICPGoodnessERD_t_def)

lemma update_counters:
  fixes env params observations observation d g
  defines "d' \<equiv> fst (updateDeciderState env params observations observation (d, g))"
  shows "edge_count (m_edge_types_to_nums d) ''LC'' \<le> edge_count (m_edge_types_to_nums d') ''LC''
    \<and> edge_count (m_edge_types_to_nums d') ''LC'' - edge_count (m_edge_types_to_nums d) ''LC''
        \<le> (edge_count (m_edge_types_to_nums d') ''ICP2D'' - edge_count (m_edge_types_to_nums d) ''ICP2D'')
          + (edge_count (m_edge_types_to_nums d') ''ICP3D'' - edge_count (m_edge_types_to_nums d) ''ICP3D'')"
proof (cases "m_last_total_num_of_nodes d < nodeCount g")
  case True
  let ?d2 = "ingest env observations observation True g (d\<lparr>m_last_total_num_of_nodes := nodeCount g\<rparr>)"
  let ?acc = "registered_edges env params ?d2 g"
  have "length (filter (id_gap_exceeds params) ?acc) \<le> length ?acc" by (rule length_filter_le)
  with update_new_node_effect [OF True, where env = env and params = params
         and observations = observations and observation = observation] show ?thesis
    by (simp add: d'_def)
next
  case False
  from update_no_new_node_effect [OF False, where env = env and params = params
         and observations = observations and observation = observation] show ?thesis
    by (simp add: d'_def)
qed

lemma run_updates_counters:
  "edge_count (m_edge_types_to_nums d) ''LC''
     \<le> edge_count (m_edge_types_to_nums d) ''ICP2D'' + edge_count (m_edge_types_to_nums d) ''ICP3D'' \<Longrightarrow>
   edge_count (m_edge_types_to_nums (run_updates env params d steps)) ''LC''
     \<le> edge_count (m_edge_types_to_nums (run_updates env params d steps)) ''ICP2D''
       + edge_count (m_edge_types_to_nums (run_updates env params d steps)) ''ICP3D''"
proof (induction steps arbitrary: d)
  case Nil
  then show ?case by simp
next
  case (Cons s steps)
  obtain g observations observation where s: "s = (g, observations, observation)"
    by (cases s)
  let ?d' = "fst (updateDeciderState env params observations observation (d, g))"
  from update_counters [of d env params observations observation g] Cons.prems
  have "edge_count (m_edge_types_to_nums ?d') ''LC''
     \<le> edge_count (m_edge_types_to_nums ?d') ''ICP2D'' + edge_count (m_edge_types_to_nums ?d') ''ICP3D''"
    by linarith
  from Cons.IH [OF this] show ?case by (simp add: s)
qed

text \<open>
  Claim C7. After every sequence of steps of a freshly constructed decider, the
  \<^verbatim>\<open>"LC"\<close> counter is at most the sum of the \<^verbatim>\<open>"ICP2D"\<close> and \<^verbatim>\<open>"ICP3D"\<close> counters; and
  in every single step, from any state, the \<^verbatim>\<open>"LC"\<close> counter grows by no more than these
  two counters grow together.
\<close>

theorem LC_counter_at_most_ICP_counters:
  "edge_count (getEdgesStats (run_updates env params initCICPGoodnessERD_t steps)) ''LC''
     \<le> edge_count (getEdgesStats (run_updates env params initCICPGoodnessERD_t steps)) ''ICP2D''
       + edge_count (getEdgesStats (run_updates env params initCICPGoodnessERD_t steps)) ''ICP3D''
   \<and> edge_count (getEdgesStats (fst (updateDeciderState env params observations observation (d, g)))) ''LC''
       - edge_count (getEdgesStats d) ''LC''
     \<le> (edge_count (getEdgesStats (fst (updateDeciderState env params observations observation (d, g)))) ''ICP2D''
          - edge_count (getEdgesStats d) ''ICP2D'')
       + (edge_count (getEdgesStats (fst (updateDeciderState env params observations observation (d, g)))) ''ICP3D''
          - edge_count (getEdgesStats d) ''ICP3D'')"
proof -
  have "edge_count (m_edge_types_to_nums initCICPGoodnessERD_t) ''LC''
     \<le> edge_count (m_edge_types_to_nums initCICPGoodnessERD_t) ''ICP2D''
       + edge_count (m_edge_types_to_nums initCICPGoodnessERD_t) ''ICP3D''"
    by (simp add: initCICPGoodnessERD_t_def edge_count_def)
  from run_updates_counters [OF this] update_counters [of d env params observations observation g]
  show ?thesis by (simp add: getEdgesStats_def)
qed

theorem LC_counter_at_most_ICP_counters_witness:
  "edge_count (getEdgesStats (run_updates line_env gap1_params fresh_decider
       [(line_graph 3 [], [], Some (Observation2DRangeScan 100)),
        (line_graph 4 [], [], Some (Observation2DRangeScan 101))])) ''LC''
     \<le> edge_count (getEdgesStats (run_updates line_env gap1_params fresh_decider
       [(line_graph 3 [], [], Some (Observation2DRangeScan 100)),
        (line_graph 4 [], [], Some (Observation2DRangeScan 101))])) ''ICP2D''
       + edge_count (getEdgesStats (run_updates line_env gap1_params fresh_decider
       [(line_graph 3 [], [], Some (Observation2DRangeScan 100)),
        (line_graph 4 [], [], Some (Observation2DRangeScan 101))])) ''ICP3D''"
  using LC_counter_at_most_ICP_counters
          [of line_env gap1_params
              "[(line_graph 3 [], [], Some (Observation2DRangeScan 100)),
                (line_graph 4 [], [], Some (Observation2DRangeScan 101))]"
              "[]" "Some (Observation2DRangeScan 100)" fresh_decider "line_graph 3 []"]
  by (simp add: fresh_decider_def)

subsection \<open>Loop closures, scan mode and the goodness threshold\<close>

lemma new_edges_appended: "new_edges g (g\<lparr>edges := edges g @ acc\<rparr>) = acc"
  by (simp add: new_edges_def)

text \<open>
  Claim C2, amended. The flag is reset only by a step that detects a new node. After such
  a step \<^verbatim>\<open>justInsertedLoopClosure()\<close> is true if and only if the step registered at least
  one edge whose id gap exceeds \<^verbatim>\<open>LC_min_nodeid_diff\<close>; a step that detects no new node
  registers nothing and leaves the flag as it was.
\<close>

theorem justInsertedLoopClosure_after_update:
  "justInsertedLoopClosure (fst (updateDeciderState env params observations observation (d, g)))
     = (if m_last_total_num_of_nodes d < nodeCount g
        then \<exists>e \<in> set (new_edges g (snd (updateDeciderState env params observations observation (d, g)))).
               id_gap_exceeds params e
        else justInsertedLoopClosure d)
   \<and> (\<not> m_last_total_num_of_nodes d < nodeCount g \<longrightarrow>
        new_edges g (snd (updateDeciderState env params observations observation (d, g))) = [])"
proof (cases "m_last_total_num_of_nodes d < nodeCount g")
  case True
  from update_new_node_effect [OF True, where env = env and params = params
         and observations = observations and observation = observation] True
  show ?thesis by (simp add: justInsertedLoopClosure_def new_edges_appended)
next
  case False
  from update_no_new_node_effect [OF False, where env = env and params = params
         and observations = observations and observation = observation] False
  show ?thesis by (simp add: justInsertedLoopClosure_def new_edges_def)
qed

theorem justInsertedLoopClosure_after_update_witness:
  "justInsertedLoopClosure (fst session2D_3)
   \<and> (\<exists>e \<in> set (new_edges (line_graph 5 (edges (snd session2D_2))) (snd session2D_3)).
         id_gap_exceeds gap1_params e)
   \<and> \<not> m_last_total_num_of_nodes (fst session2D_3) < nodeCount (snd session2D_3)
   \<and> justInsertedLoopClosure (fst session2D_4)
   \<and> new_edges (snd session2D_3) (snd session2D_4) = []"
  using justInsertedLoopClosure_after_update
          [of line_env gap1_params "[]" "Some (Observation2DRangeScan 102)" "fst session2D_2"
              "line_graph 5 (edges (snd session2D_2))"]
        justInsertedLoopClosure_after_update
          [of line_env gap1_params "[]" "Some (Observation2DRangeScan 103)" "fst session2D_3"
              "snd session2D_3"]
  unfolding session2D_3_def [symmetric] session2D_4_def [symmetric] prod.collapse
  by (simp add: session2D_2_state session2D_3_state nodeCount_def line_graph_def new_edges_def
        id_gap_exceeds_def gap1_params_def justInsertedLoopClosure_def)

text \<open>The claim as stated fails: the third step of the 2D session registers the edge
  \<open>(2, 4)\<close>, whose gap exceeds 1; the fourth step detects no new node and registers no
  edge, and \<^verbatim>\<open>justInsertedLoopClosure()\<close> is still true after it.\<close>

theorem justInsertedLoopClosure_stale_counterexample:
  "\<not> (justInsertedLoopClosure (fst session2D_4)
       \<longleftrightarrow> (\<exists>e \<in> set (new_edges (snd session2D_3) (snd session2D_4)). id_gap_exceeds gap1_params e))"
  by (simp add: session2D_3_state session2D_4_state justInsertedLoopClosure_def new_edges_def)

lemma accepted_edge_member:
  assumes "node \<in> set cands" and "registry node = Some prev" and "registry new_id = Some cscan"
  shows "(node, new_id, fst (icp prev cscan))
           \<in> set (List.map_filter (accepted_edge icp params registry new_id) cands)
         \<longleftrightarrow> snd (icp prev cscan) > ICP_goodness_thresh params"
proof -
  have "accepted_edge icp params registry new_id n = Some (node, new_id, c) \<Longrightarrow> n = node" for n c
    by (auto simp: accepted_edge_def split: option.splits if_splits)
  then have "(node, new_id, fst (icp prev cscan))
           \<in> set (List.map_filter (accepted_edge icp params registry new_id) cands)
         \<longleftrightarrow> accepted_edge icp params registry new_id node = Some (node, new_id, fst (icp prev cscan))"
    using assms(1) by (force simp: List.map_filter_def)
  then show ?thesis using assms(2,3) by (simp add: accepted_edge_def)
qed

lemma update_new_edges_by_mode:
  fixes env params observations observation d g
  assumes new: "m_last_total_num_of_nodes d < nodeCount g"
  defines "res \<equiv> updateDeciderState env params observations observation (d, g)"
  defines "cands \<equiv> getNearbyNodesOf env g [] (nodeCount g - 1) (ICP_max_distance params)"
  shows "new_edges g (snd res)
           = (if m_is_using_3DScan (fst res)
              then List.map_filter (accepted_edge (getICPEdge3D env) params
                     (m_nodes_to_laser_scans3D (fst res)) (nodeCount g - 1)) cands
              else List.map_filter (accepted_edge (getICPEdge2D env) params
                     (m_nodes_to_laser_scans2D (fst res)) (nodeCount g - 1)) cands)
    \<and> (\<forall>l. edge_count (m_edge_types_to_nums (fst res)) l
           = edge_count (m_edge_types_to_nums d) l
             + (if l = (if m_is_using_3DScan (fst res) then ''ICP3D'' else ''ICP2D'')
                then int (length (new_edges g (snd res))) else 0)
             + (if l = ''LC'' then int (length (filter (id_gap_exceeds params) (new_edges g (snd res)))) else 0))"
  using update_new_node_effect [OF new, where env = env and params = params
         and observations = observations and observation = observation]
  by (simp add: res_def cands_def new_edges_appended registered_edges_def Let_def)

text \<open>
  Claim C6. In a step that detects a new node, the edges appended to the pose graph are
  exactly the edges \<open>(candidate, new_node_id)\<close> that the pairwise ICP accepts on the
  registry of the active mode, in ascending order of the candidates; so for a candidate
  whose scan and the new node's scan are in that registry, the edge is inserted if and
  only if the goodness that the ICP solver reports is strictly greater than
  \<^verbatim>\<open>ICP_goodness_thresh\<close>. The counter of the active mode (\<^verbatim>\<open>"ICP2D"\<close> or \<^verbatim>\<open>"ICP3D"\<close>)
  grows by the number of the inserted edges, the counter of the other mode does not
  change, and \<^verbatim>\<open>"LC"\<close> grows by the number of the inserted edges whose id gap exceeds
  \<^verbatim>\<open>LC_min_nodeid_diff\<close>: a pair at or below the threshold changes nothing. (The registries
  after the step are those the registration ran on.)
\<close>

theorem edge_registered_iff_goodness_exceeds_threshold:
  fixes env params observations observation d g
  assumes new: "m_last_total_num_of_nodes d < nodeCount g"
  defines "res \<equiv> updateDeciderState env params observations observation (d, g)"
  defines "new_id \<equiv> nodeCount g - 1"
  defines "cands \<equiv> getNearbyNodesOf env g [] new_id (ICP_max_distance params)"
  shows "(\<not> m_is_using_3DScan (fst res) \<longrightarrow>
            new_edges g (snd res)
              = List.map_filter (accepted_edge (getICPEdge2D env) params
                                   (m_nodes_to_laser_scans2D (fst res)) new_id) cands
          \<and> (\<forall>node \<in> set cands. \<forall>prev cscan.
                m_nodes_to_laser_scans2D (fst res) node = Some prev \<longrightarrow>
                m_nodes_to_laser_scans2D (fst res) new_id = Some cscan \<longrightarrow>
                  ((node, new_id, fst (getICPEdge2D env prev cscan)) \<in> set (new_edges g (snd res))
                   \<longleftrightarrow> snd (getICPEdge2D env prev cscan) > ICP_goodness_thresh params))
          \<and> edge_count (getEdgesStats (fst res)) ''ICP2D''
              = edge_count (getEdgesStats d) ''ICP2D'' + int (length (new_edges g (snd res)))
          \<and> edge_count (getEdgesStats (fst res)) ''ICP3D'' = edge_count (getEdgesStats d) ''ICP3D'')
       \<and> (m_is_using_3DScan (fst res) \<longrightarrow>
            new_edges g (snd res)
              = List.map_filter (accepted_edge (getICPEdge3D env) params
                                   (m_nodes_to_laser_scans3D (fst res)) new_id) cands
          \<and> (\<forall>node \<in> set cands. \<forall>prev cscan.
                m_nodes_to_laser_scans3D (fst res) node = Some prev \<longrightarrow>
                m_nodes_to_laser_scans3D (fst res) new_id = Some cscan \<longrightarrow>
                  ((node, new_id, fst (getICPEdge3D env prev cscan)) \<in> set (new_edges g (snd res))
                   \<longleftrightarrow> snd (getICPEdge3D env prev cscan) > ICP_goodness_thresh params))
          \<and> edge_count (getEdgesStats (fst res)) ''ICP3D''
              = edge_count (getEdgesStats d) ''ICP3D'' + int (length (new_edges g (snd res)))
          \<and> edge_count (getEdgesStats (fst res)) ''ICP2D'' = edge_count (getEdgesStats d) ''ICP2D'')
       \<and> edge_count (getEdgesStats (fst res)) ''LC''
           = edge_count (getEdgesStats d) ''LC''
             + int (length (filter (id_gap_exceeds params) (new_edges g (snd res))))"
proof -
  note eff = update_new_edges_by_mode [OF new, where env = env and params = params
         and observations = observations and observation = observation,
         folded res_def new_id_def cands_def]
  from eff have lc: "edge_count (getEdgesStats (fst res)) ''LC''
           = edge_count (getEdgesStats d) ''LC''
             + int (length (filter (id_gap_exceeds params) (new_edges g (snd res))))"
    by (simp add: getEdgesStats_def)
  show ?thesis
  proof (cases "m_is_using_3DScan (fst res)")
    case True
    with eff have e: "new_edges g (snd res)
              = List.map_filter (accepted_edge (getICPEdge3D env) params
                                   (m_nodes_to_laser_scans3D (fst res)) new_id) cands"
      by (simp add: cands_def)
    from eff True have c: "edge_count (getEdgesStats (fst res)) ''ICP3D''
              = edge_count (getEdgesStats d) ''ICP3D'' + int (length (new_edges g (snd res)))"
      "edge_count (getEdgesStats (fst res)) ''ICP2D'' = edge_count (getEdgesStats d) ''ICP2D''"
      by (simp_all add: getEdgesStats_def)
    from True e c lc show ?thesis by (simp add: accepted_edge_member)
  next
    case False
    with eff have e: "new_edges g (snd res)
              = List.map_filter (accepted_edge (getICPEdge2D env) params
                                   (m_nodes_to_laser_scans2D (fst res)) new_id) cands"
      by (simp add: cands_def)
    from eff False have c: "edge_count (getEdgesStats (fst res)) ''ICP2D''
              = edge_count (getEdgesStats d) ''ICP2D'' + int (length (new_edges g (snd res)))"
      "edge_count (getEdgesStats (fst res)) ''ICP3D'' = edge_count (getEdgesStats d) ''ICP3D''"
      by (simp_all add: getEdgesStats_def)
    from False e c lc show ?thesis by (simp add: accepted_edge_member)
  qed
qed

theorem edge_registered_iff_goodness_exceeds_threshold_witness:
  "m_last_total_num_of_nodes (fst session2D_2) < nodeCount (line_graph 5 (edges (snd session2D_2)))
   \<and> \<not> m_is_using_3DScan (fst session2D_3)
   \<and> new_edges (line_graph 5 (edges (snd session2D_2))) (snd session2D_3) = [(2, 4, ()), (3, 4, ())]
   \<and> edge_count (getEdgesStats (fst session2D_3)) ''ICP2D''
       = edge_count (getEdgesStats (fst session2D_2)) ''ICP2D'' + 2
   \<and> edge_count (getEdgesStats (fst session2D_3)) ''ICP3D''
       = edge_count (getEdgesStats (fst session2D_2)) ''ICP3D''
   \<and> new_edges (line_graph 5 (edges (snd session2D_2)))
        (snd (updateDeciderState poor_env gap1_params [] (Some (Observation2DRangeScan 102))
               (fst session2D_2, line_graph 5 (edges (snd session2D_2))))) = []"
proof -
  have new: "m_last_total_num_of_nodes (fst session2D_2) < nodeCount (line_graph 5 (edges (snd session2D_2)))"
    by (simp add: session2D_2_state nodeCount_def line_graph_def)
  have nc: "nodeCount (line_graph 5 (edges (snd session2D_2))) = 5"
    by (simp add: nodeCount_def line_graph_def)
  have mode: "\<not> m_is_using_3DScan (fst session2D_3)"
    by (simp add: session2D_3_state)
  have cands: "getNearbyNodesOf line_env (line_graph 5 (edges (snd session2D_2))) []
                 (nodeCount (line_graph 5 (edges (snd session2D_2))) - 1) (ICP_max_distance gap1_params)
               = [0, 1, 2, 3]"
    by (simp add: session_defs session2D_2_state)
  have reg: "m_nodes_to_laser_scans2D (fst session2D_3) = [2 \<mapsto> 100, 3 \<mapsto> 101, 4 \<mapsto> 102]"
    by (simp add: session2D_3_state)
  note inst = edge_registered_iff_goodness_exceeds_threshold
      [OF new, of line_env gap1_params "[]" "Some (Observation2DRangeScan 102)",
       folded session2D_3_def]
  have poor: "\<not> m_is_using_3DScan (fst (updateDeciderState poor_env gap1_params [] (Some (Observation2DRangeScan 102))
               (fst session2D_2, line_graph 5 (edges (snd session2D_2)))))"
    by (simp add: session2D_2_state poor_env_def session_defs)
  note inst2 = edge_registered_iff_goodness_exceeds_threshold
      [OF new, of poor_env gap1_params "[]" "Some (Observation2DRangeScan 102)"]
  have e1: "new_edges (line_graph 5 (edges (snd session2D_2))) (snd session2D_3) = [(2, 4, ()), (3, 4, ())]"
    using inst [unfolded cands reg] mode
    by (simp add: nc accepted_edge_def line_env_def gap1_params_def)
  have e2: "new_edges (line_graph 5 (edges (snd session2D_2)))
        (snd (updateDeciderState poor_env gap1_params [] (Some (Observation2DRangeScan 102))
               (fst session2D_2, line_graph 5 (edges (snd session2D_2))))) = []"
    using inst2 poor
    by (simp add: List.map_filter_def accepted_edge_def poor_env_def line_env_def gap1_params_def
          split: option.splits)
  from inst mode e1 have c: "edge_count (getEdgesStats (fst session2D_3)) ''ICP2D''
       = edge_count (getEdgesStats (fst session2D_2)) ''ICP2D'' + 2"
    "edge_count (getEdgesStats (fst session2D_3)) ''ICP3D''
       = edge_count (getEdgesStats (fst session2D_2)) ''ICP3D''"
    by simp_all
  from new mode e1 e2 c show ?thesis by blast
qed

text \<open>
  Claim C4, amended. There is no latch: every single observation that is a range scan sets
  the mode to its own kind, a 2D scan to 2D even after 3D scans. After every step the mode
  is 3D exactly when the step's observation was a 3D range scan, or was no range scan (or
  a sensory frame) and the mode was 3D before; and a step that detects a new node
  registers its edges on the registry of that mode. So after a 3D scan the 3D registry is
  used only until a 2D range scan arrives as a single observation.
\<close>

theorem scan_mode_follows_latest_range_scan:
  fixes env params observations observation d g
  defines "res \<equiv> updateDeciderState env params observations observation (d, g)"
  defines "cands \<equiv> getNearbyNodesOf env g [] (nodeCount g - 1) (ICP_max_distance params)"
  shows "m_is_using_3DScan (fst res)
           = (case observation of
                Some (Observation2DRangeScan s) \<Rightarrow> False
              | Some (Observation3DRangeScan s) \<Rightarrow> True
              | _ \<Rightarrow> m_is_using_3DScan d)
       \<and> (m_last_total_num_of_nodes d < nodeCount g \<longrightarrow>
            new_edges g (snd res)
              = (if m_is_using_3DScan (fst res)
                 then List.map_filter (accepted_edge (getICPEdge3D env) params
                        (m_nodes_to_laser_scans3D (fst res)) (nodeCount g - 1)) cands
                 else List.map_filter (accepted_edge (getICPEdge2D env) params
                        (m_nodes_to_laser_scans2D (fst res)) (nodeCount g - 1)) cands))"
proof (cases "m_last_total_num_of_nodes d < nodeCount g")
  case True
  from update_new_node_effect [OF True, where env = env and params = params
         and observations = observations and observation = observation]
  have "m_is_using_3DScan (fst res)
          = m_is_using_3DScan (ingest env observations observation True g
                                 (d\<lparr>m_last_total_num_of_nodes := nodeCount g\<rparr>))"
    by (simp add: res_def)
  then have mode: "m_is_using_3DScan (fst res)
           = (case observation of
                Some (Observation2DRangeScan s) \<Rightarrow> False
              | Some (Observation3DRangeScan s) \<Rightarrow> True
              | _ \<Rightarrow> m_is_using_3DScan d)"
    by (simp add: ingest_mode split: option.splits observation.splits)
  from update_new_edges_by_mode [OF True, where env = env and params = params
         and observations = observations and observation = observation]
  have "new_edges g (snd res)
              = (if m_is_using_3DScan (fst res)
                 then List.map_filter (accepted_edge (getICPEdge3D env) params
                        (m_nodes_to_laser_scans3D (fst res)) (nodeCount g - 1)) cands
                 else List.map_filter (accepted_edge (getICPEdge2D env) params
                        (m_nodes_to_laser_scans2D (fst res)) (nodeCount g - 1)) cands)"
    by (simp add: res_def cands_def)
  with mode show ?thesis by blast
next
  case False
  from update_no_new_node_effect [OF False, where env = env and params = params
         and observations = observations and observation = observation]
  have "m_is_using_3DScan (fst res)
          = m_is_using_3DScan (ingest env observations observation False g d)"
    by (simp add: res_def)
  with False show ?thesis by (simp add: ingest_mode split: option.splits observation.splits)
qed

theorem scan_mode_follows_latest_range_scan_witness:
  "m_is_using_3DScan (fst session3D_1)
   \<and> \<not> m_is_using_3DScan (fst session3D_3)
   \<and> m_last_total_num_of_nodes (fst session3D_2) < nodeCount (line_graph 5 (edges (snd session3D_2)))
   \<and> new_edges (line_graph 5 (edges (snd session3D_2))) (snd session3D_3) = [(3, 4, ())]"
proof -
  have new: "m_last_total_num_of_nodes (fst session3D_2) < nodeCount (line_graph 5 (edges (snd session3D_2)))"
    by (simp add: session3D_2_state nodeCount_def line_graph_def)
  have nc: "nodeCount (line_graph 5 (edges (snd session3D_2))) = 5"
    by (simp add: nodeCount_def line_graph_def)
  have cands: "getNearbyNodesOf line_env (line_graph 5 (edges (snd session3D_2))) []
                 (nodeCount (line_graph 5 (edges (snd session3D_2))) - 1) (ICP_max_distance default_params)
               = [0, 1, 2, 3]"
    by (simp add: session_defs session3D_2_state)
  have reg: "m_nodes_to_laser_scans2D (fst session3D_3) = [3 \<mapsto> 201, 4 \<mapsto> 202]"
    by (simp add: session3D_3_state)
  note first = scan_mode_follows_latest_range_scan
      [of line_env default_params "[]" "Some (Observation3DRangeScan 300)" fresh_decider "line_graph 3 []",
       folded session3D_1_def]
  note third = scan_mode_follows_latest_range_scan
      [of line_env default_params "[]" "Some (Observation2DRangeScan 202)" "fst session3D_2"
          "line_graph 5 (edges (snd session3D_2))", folded session3D_3_def]
  from first have m1: "m_is_using_3DScan (fst session3D_1)" by simp
  from third have m3: "\<not> m_is_using_3DScan (fst session3D_3)" by simp
  from third [unfolded cands reg] new m3
  have "new_edges (line_graph 5 (edges (snd session3D_2))) (snd session3D_3) = [(3, 4, ())]"
    by (simp add: nc accepted_edge_def line_env_def default_params_def)
  with m1 m3 new show ?thesis by blast
qed

text \<open>The claim as stated fails: in the session of a 3D scan followed by two 2D scans, the
  mode is 3D after the first step and 2D after the third; the third step registers the one
  edge that the 2D registry yields and counts it under \<^verbatim>\<open>"ICP2D"\<close>, where the 3D registry
  holds scans for the nodes 2, 3 and 4 and would have yielded two edges.\<close>

theorem scan_mode_not_latched_counterexample:
  "m_is_using_3DScan (fst session3D_1)
   \<and> \<not> m_is_using_3DScan (fst session3D_3)
   \<and> new_edges (line_graph 5 (edges (snd session3D_2))) (snd session3D_3) = [(3, 4, ())]
   \<and> edge_count (getEdgesStats (fst session3D_3)) ''ICP2D'' = 1
   \<and> edge_count (getEdgesStats (fst session3D_3)) ''ICP3D'' = 0
   \<and> new_edges (line_graph 5 (edges (snd session3D_2))) (snd session3D_3)
       \<noteq> List.map_filter
           (accepted_edge (getICPEdge3D line_env) default_params
              (m_nodes_to_laser_scans3D (fst session3D_3)) 4)
           (getNearbyNodesOf line_env (line_graph 5 (edges (snd session3D_2))) [] 4
              (ICP_max_distance default_params))"
proof -
  have cands: "getNearbyNodesOf line_env (line_graph 5 (edges (snd session3D_2))) [] 4
                 (ICP_max_distance default_params) = [0, 1, 2, 3]"
    by (simp add: session_defs session3D_2_state)
  show ?thesis
    unfolding cands
    by (simp add: session3D_1_state session3D_2_state session3D_3_state new_edges_def line_graph_def
          getEdgesStats_def edge_count_def accepted_edge_def line_env_def
          default_params_def)
qed

text \<open>
  Claim C1 (a defect of the code, on the graph modelled from the spec). With
  \<^verbatim>\<open>ICP_max_distance = 0\<close> the candidates of \<^verbatim>\<open>getNearbyNodesOf\<close> are all the nodes of
  \<^verbatim>\<open>getAllNodes\<close>, the new node among them, where the branch for a positive distance
  checks "all but the last node". On the graph of three nodes the candidates are
  \<open>0, 1, 2\<close> and not \<open>0, 1\<close>, and the step registers the edge \<open>(2, 2)\<close> from the new node
  to itself.
\<close>

theorem getNearbyNodesOf_all_nodes_includes_new_node:
  "getNearbyNodesOf line_env (line_graph 3 []) [] (nodeCount (line_graph 3 []) - 1)
      (ICP_max_distance all_nodes_params) = [0, 1, 2]
   \<and> getNearbyNodesOf line_env (line_graph 3 []) [] (nodeCount (line_graph 3 []) - 1)
      (ICP_max_distance default_params) = [0, 1]
   \<and> new_edges (line_graph 3 [])
        (snd (updateDeciderState line_env all_nodes_params [] (Some (Observation2DRangeScan 100))
               (fresh_decider, line_graph 3 []))) = [(2, 2, ())]"
  by (simp add: session_defs new_edges_def upt_rec)

end
